theory Spec2Isabelle
  imports Main
begin

section \<open>Go library functions used by the service\<close>

text \<open>
  Go strings are byte strings; they are modelled as \<open>string\<close> (a list of \<open>char\<close>).
  Go's \<open>int\<close> and \<open>int64\<close> are modelled as \<open>int\<close>; the only place where the 64-bit
  range is observable in the modelled code is \<open>strconv.Atoi\<close>, which checks it.
  An \<open>error\<close> value is modelled by its text.
\<close>

type_synonym error = string

text \<open>\<open>strings.HasPrefix(s, prefix)\<close>.\<close>

definition HasPrefix :: "string \<Rightarrow> string \<Rightarrow> bool" where
  "HasPrefix s pre = (length pre \<le> length s \<and> take (length pre) s = pre)"

text \<open>\<open>strings.Contains(s, substr)\<close>.\<close>

fun Contains :: "string \<Rightarrow> string \<Rightarrow> bool" where
  "Contains [] sub = (sub = [])"
| "Contains (c # cs) sub = (HasPrefix (c # cs) sub \<or> Contains cs sub)"

text \<open>
  \<open>strings.ReplaceAll(s, old, new)\<close>: every non-overlapping instance of \<open>old\<close>, scanning
  from the left. With an empty \<open>old\<close> Go inserts \<open>new\<close> before every UTF-8 sequence and
  at the end; the model does so before every byte (the service only calls it with a
  one-byte \<open>old\<close>).
\<close>

function ReplaceAll :: "string \<Rightarrow> string \<Rightarrow> string \<Rightarrow> string" where
  "ReplaceAll [] old new = (if old = [] then new else [])"
| "ReplaceAll (c # cs) old new =
     (if old = [] then new @ c # ReplaceAll cs old new
      else if HasPrefix (c # cs) old
        then new @ ReplaceAll (drop (length old) (c # cs)) old new
        else c # ReplaceAll cs old new)"
  by pat_completeness auto
termination
  by (relation "measure (\<lambda>(s, old, new). length s)") (auto simp: neq_Nil_conv)

text \<open>
  Decimal formatting of integers: \<open>strconv.FormatInt(i, 10)\<close>, \<open>strconv.Itoa(i)\<close> and
  the verb \<open>%d\<close> of \<open>fmt.Sprintf\<close> all give this text.
\<close>

definition digit_char :: "nat \<Rightarrow> char" where
  "digit_char d = ''0123456789'' ! d"

function FormatUint :: "nat \<Rightarrow> string" where
  "FormatUint n =
     (if n < 10 then [digit_char n] else FormatUint (n div 10) @ [digit_char (n mod 10)])"
  by pat_completeness auto
termination
  by (relation "measure id") auto

definition FormatInt :: "int \<Rightarrow> string" where
  "FormatInt i = (if i < 0 then CHR ''-'' # FormatUint (nat (- i)) else FormatUint (nat i))"

text \<open>
  The verb \<open>%02d\<close>: the decimal text, padded with zeros to two characters (a negative
  number already has two).
\<close>

definition Format02d :: "int \<Rightarrow> string" where
  "Format02d i = (let s = FormatInt i in if length s < 2 then CHR ''0'' # s else s)"

text \<open>
  \<open>strconv.Atoi(s)\<close>: an optional sign, then one or more decimal digits; the value has
  to fit Go's 64-bit \<open>int\<close>. \<open>ParseUint\<close> is the digit loop of \<open>strconv.ParseUint\<close> in
  base 10, from the value read so far: a byte that is not a digit is a syntax error,
  and a value that leaves 64 bits is a range error at the digit where it does, before
  the bytes after it are looked at. \<open>Atoi\<close> then checks the signed range. Its short-input
  path gives the same results. The error is a \<open>*strconv.NumError\<close>, whose text quotes
  the input with \<open>strconv.Quote\<close>; quoting is not modelled and is a parameter.
\<close>

definition digit_val :: "char \<Rightarrow> nat option" where
  "digit_val c =
     (let n = (of_char c :: nat) in if 48 \<le> n \<and> n \<le> 57 then Some (n - 48) else None)"

datatype parsed = ErrSyntax | ErrRange | Parsed nat

fun ParseUint :: "nat \<Rightarrow> string \<Rightarrow> parsed" where
  "ParseUint n [] = Parsed n"
| "ParseUint n (c # cs) =
     (case digit_val c of
        None \<Rightarrow> ErrSyntax
      | Some d \<Rightarrow>
          if (2 ^ 64 - 1) div 10 + 1 \<le> n then ErrRange
          else if 2 ^ 64 - 1 < n * 10 + d then ErrRange
          else ParseUint (n * 10 + d) cs)"

definition NumError :: "(string \<Rightarrow> string) \<Rightarrow> string \<Rightarrow> string \<Rightarrow> error" where
  "NumError quote s msg = ''strconv.Atoi: parsing '' @ quote s @ '': '' @ msg"

definition Atoi :: "(string \<Rightarrow> string) \<Rightarrow> string \<Rightarrow> error + int" where
  "Atoi quote s =
     (let (neg, ds) =
            (case s of
               [] \<Rightarrow> (False, s)
             | c # r \<Rightarrow> if c = CHR ''-'' then (True, r)
                        else if c = CHR ''+'' then (False, r) else (False, s))
      in if ds = [] then Inl (NumError quote s ''invalid syntax'')
         else case ParseUint 0 ds of
                ErrSyntax \<Rightarrow> Inl (NumError quote s ''invalid syntax'')
              | ErrRange \<Rightarrow> Inl (NumError quote s ''value out of range'')
              | Parsed un \<Rightarrow>
                  if \<not> neg \<and> 2 ^ 63 \<le> un
                  then Inl (NumError quote s ''value out of range'')
                  else if neg \<and> 2 ^ 63 < un
                  then Inl (NumError quote s ''value out of range'')
                  else Inr (if neg then - int un else int un))"

text \<open>Go's integer division and remainder truncate towards zero.\<close>

definition quo :: "int \<Rightarrow> int \<Rightarrow> int" where
  "quo a b = sgn a * sgn b * (\<bar>a\<bar> div \<bar>b\<bar>)"

definition rem :: "int \<Rightarrow> int \<Rightarrow> int" where
  "rem a b = a - b * quo a b"

section \<open>Data model\<close>

text \<open>
  \<open>CallMapping\<close> (services.go). A \<open>time.Time\<close> is modelled by its Unix time in
  seconds.
\<close>

record CallMapping =
  PersonName :: string
  PhoneNumber :: string
  LeadTitle :: string
  PersonID :: int
  Timestamp :: int

text \<open>The zero value of \<open>CallMapping\<close>; the zero \<open>time.Time\<close> is January 1, year 1.\<close>

definition zero_CallMapping :: CallMapping where
  "zero_CallMapping =
     \<lparr>PersonName = '''', PhoneNumber = '''', LeadTitle = '''', PersonID = 0,
      Timestamp = - 62135596800\<rparr>"

record PipedrivePhone =
  Label :: string
  Value :: string
  Primary :: bool

record PipedrivePerson =
  ID :: int
  Name :: string
  Email :: "PipedrivePhone list"
  Phone :: "PipedrivePhone list"

section \<open>Phone number extraction\<close>

text \<open>
  The method \<open>(p *PipedriveService) extractPhoneFromPerson\<close>. The argument is the person
  a non-nil pointer refers to; callers handle the nil pointer. A nil and an empty
  \<open>Phone\<close> slice both have length 0.
\<close>

definition extractPhoneFromPerson :: "PipedrivePerson \<Rightarrow> string" where
  "extractPhoneFromPerson person =
     (case Phone person of
        [] \<Rightarrow> ''''
      | ph # _ \<Rightarrow>
          (let phoneNumber = Value ph;
               phoneNumber = ReplaceAll phoneNumber '' '' '''';
               phoneNumber = ReplaceAll phoneNumber ''-'' '''';
               phoneNumber = ReplaceAll phoneNumber ''('' '''';
               phoneNumber = ReplaceAll phoneNumber '')'' ''''
           in if \<not> HasPrefix phoneNumber ''+'' then ''+1'' @ phoneNumber
              else if HasPrefix phoneNumber ''1'' \<and> \<not> HasPrefix phoneNumber ''+1''
                then ''+'' @ phoneNumber
                else phoneNumber))"

section \<open>Payloads, configuration and the service\<close>

text \<open>\<open>Config\<close> and its two predicates (config.go).\<close>

record Config =
  Port :: string
  Host :: string
  PipedriveAPIKey :: string
  PipedriveBaseURL :: string
  PipedriveCompanyID :: string
  RetellAPIKey :: string
  RetellAssistantID :: string
  RetellBaseURL :: string
  RetellFromNumber :: string
  RetellWebhookSecret :: string
  CalWebhookSecret :: string
  LogLevel :: string

definition HasPipedriveConfig :: "Config \<Rightarrow> bool" where
  "HasPipedriveConfig c = (PipedriveAPIKey c \<noteq> '''')"

definition HasRetellConfig :: "Config \<Rightarrow> bool" where
  "HasRetellConfig c = (RetellAPIKey c \<noteq> '''' \<and> RetellAssistantID c \<noteq> '''')"

text \<open>
  \<open>PipedriveService\<close>: the configuration and the correlation store, a Go map from call
  identifier to \<open>CallMapping\<close>. \<open>NewPipedriveService\<close>, its only constructor, makes the
  map, so it is never nil. The \<open>httpClient\<close> field is the \<open>Do\<close> of the environment below.
\<close>

record PipedriveService =
  config :: Config
  callMappings :: "string \<rightharpoonup> CallMapping"

definition NewPipedriveService :: "Config \<Rightarrow> PipedriveService" where
  "NewPipedriveService c = \<lparr>config = c, callMappings = Map.empty\<rparr>"

text \<open>
  \<open>PipedriveLeadWebhookPayload\<close> (models.go), with the fields the service and the
  handler read; the others are decoded and never used.
\<close>

record LeadData =
  Data_ID :: string
  Data_PersonID :: int
  Data_Title :: string

record LeadMeta =
  Action :: string

record PipedriveLeadWebhookPayload =
  Data :: LeadData
  Meta :: LeadMeta

text \<open>\<open>RetellCallAnalyzedPayload\<close> (models.go), likewise.\<close>

record CallAnalysis =
  CallSummary :: string
  InVoicemail :: bool
  UserSentiment :: string
  CallSuccessful :: bool

record AnalyzedCall =
  CallID :: string
  CallType :: string
  AgentID :: string
  AgentVersion :: int
  AgentName :: string
  CallStatus :: string
  StartTimestamp :: int
  EndTimestamp :: int
  DurationMs :: int
  Transcript :: string
  DisconnectionReason :: string
  Analysis :: CallAnalysis
  RecordingURL :: string
  RecordingMultiChannelURL :: string
  PublicLogURL :: string

record RetellCallAnalyzedPayload =
  Event :: string
  Call :: AnalyzedCall

record Contact =
  Contact_ID :: string
  Contact_Name :: string
  Contact_Email :: string
  Contact_Phone :: string
  DNC :: bool

text \<open>The decoded bodies of the responses of the CRM and of the call platform.\<close>

record PipedrivePersonResponse =
  Person_Success :: bool
  Person_Data :: "PipedrivePerson option"

record PipedrivePersonSearchResponse =
  Search_Success :: bool
  Search_Data :: "PipedrivePerson option"
  Search_Items :: "PipedrivePerson list"

record PipedriveActivity =
  Activity_ID :: int
  Activity_Subject :: string
  Activity_Type :: string
  Activity_DueDate :: string
  Activity_PersonID :: int
  Activity_Note :: string
  Activity_Duration :: string
  Activity_MeetingURL :: string

record PipedriveActivityResponse =
  Activity_Success :: bool
  Activity_Data :: "PipedriveActivity option"

record RetellCallResponse =
  Response_CallID :: string
  Response_Status :: string

section \<open>The environment: network, clock and codecs\<close>

text \<open>
  JSON values, as the service builds them for request bodies. An object is a list of
  members (\<open>json.Marshal\<close> sorts the keys of a Go map, so the order carries no meaning).
  The two long call-analysis notes are \<open>fmt.Sprintf\<close> of a format literal that is not
  ASCII; such a note is kept as the builder's name and its arguments in order.
\<close>

datatype arg = AStr string | AInt int | ABool bool

datatype json =
    JStr string
  | JInt int
  | JArr "json list"
  | JObj "(string \<times> json) list"
  | JNote string "arg list"

record request =
  Method :: string
  URL :: string
  Header :: "(string \<times> string) list"
  Body :: "json option"

text \<open>
  A response: the status code, the bytes \<open>io.ReadAll\<close> reads from the body, and the
  error of that read if it fails.
\<close>

record response =
  StatusCode :: int
  BodyBytes :: string
  ReadErr :: "error option"

text \<open>
  What the service does to the outside: HTTP requests handed to \<open>httpClient.Do\<close>,
  readings of the clock (\<open>time.Now\<close>) and draws of a UUID. A history is the list of
  these, oldest first.
\<close>

datatype effect = HttpDo request | ClockNow | UUIDNew

text \<open>
  The environment answers them; an answer may depend on everything done before.
  \<open>Now\<close> is the Unix time in seconds of the reading. \<open>NewRequest\<close> is
  \<open>http.NewRequest\<close>, which fails on a malformed method or URL. \<open>FormatTime t layout\<close> is
  \<open>time.Unix(t, 0).Format(layout)\<close> in the zone of the process. The decoders are
  \<open>encoding/json\<close> at each target type, and \<open>BindLead\<close> is gin's \<open>ShouldBindJSON\<close>.
\<close>

record env =
  NewRequest :: "string \<Rightarrow> string \<Rightarrow> error option"
  Do :: "effect list \<Rightarrow> request \<Rightarrow> error + response"
  Now :: "effect list \<Rightarrow> int"
  NewUUID :: "effect list \<Rightarrow> string"
  FormatTime :: "int \<Rightarrow> string \<Rightarrow> string"
  Quote :: "string \<Rightarrow> string"
  DecodePerson :: "string \<Rightarrow> error + PipedrivePersonResponse"
  DecodeSearch :: "string \<Rightarrow> error + PipedrivePersonSearchResponse"
  DecodeActivity :: "string \<Rightarrow> error + PipedriveActivityResponse"
  UnmarshalCallResponse :: "string \<Rightarrow> error + RetellCallResponse"
  UnmarshalMap :: "string \<Rightarrow> error + (string \<times> json) list"
  BindLead :: "string \<Rightarrow> error + PipedriveLeadWebhookPayload"

section \<open>Correlation store\<close>

text \<open>\<open>storeCallMapping\<close>: one reading of the clock, one write to the map.\<close>

definition storeCallMapping ::
  "env \<Rightarrow> PipedriveService \<Rightarrow> string \<Rightarrow> string \<Rightarrow> string \<Rightarrow> string \<Rightarrow> int \<Rightarrow> effect list
     \<Rightarrow> PipedriveService \<times> effect list" where
  "storeCallMapping e p callID personName phoneNumber leadTitle personID h =
     (p\<lparr>callMappings := (callMappings p)(callID \<mapsto>
          \<lparr>PersonName = personName, PhoneNumber = phoneNumber, LeadTitle = leadTitle,
           PersonID = personID, Timestamp = Now e h\<rparr>)\<rparr>,
      h @ [ClockNow])"

text \<open>\<open>getCallMapping\<close>: a missing key gives the zero value and \<open>false\<close>.\<close>

definition getCallMapping :: "PipedriveService \<Rightarrow> string \<Rightarrow> CallMapping \<times> bool" where
  "getCallMapping p callID =
     (case callMappings p callID of
        Some mapping \<Rightarrow> (mapping, True)
      | None \<Rightarrow> (zero_CallMapping, False))"

section \<open>Requests to the CRM and to the call platform\<close>

text \<open>
  \<open>makePipedriveRequest\<close>. The bodies the service passes are Go maps of strings,
  integers and slices of such maps, which \<open>json.Marshal\<close> always encodes, so that error
  return has no branch here. A request the client was asked to send is part of the
  history whether or not it is answered. A failed read of the response body is only
  logged; the caller gets the bytes read, in a fresh buffer. \<open>pipedriveURL\<close> and
  \<open>pipedriveRequest\<close> are the URL and the request it builds.
\<close>

definition pipedriveURL :: "PipedriveService \<Rightarrow> string \<Rightarrow> string" where
  "pipedriveURL p endpoint =
     (let separator = (if Contains endpoint ''?'' then ''&'' else ''?'')
      in PipedriveBaseURL (config p) @ endpoint @ separator @ ''api_token=''
           @ PipedriveAPIKey (config p))"

definition pipedriveRequest ::
  "PipedriveService \<Rightarrow> string \<Rightarrow> string \<Rightarrow> json option \<Rightarrow> request" where
  "pipedriveRequest p method endpoint body =
     \<lparr>Method = method, URL = pipedriveURL p endpoint,
      Header = [(''Content-Type'', ''application/json''), (''Accept'', ''application/json'')],
      Body = body\<rparr>"

definition makePipedriveRequest ::
  "env \<Rightarrow> PipedriveService \<Rightarrow> string \<Rightarrow> string \<Rightarrow> json option \<Rightarrow> effect list
     \<Rightarrow> (error + response) \<times> effect list" where
  "makePipedriveRequest e p method endpoint body h =
     (case NewRequest e method (pipedriveURL p endpoint) of
        Some err \<Rightarrow> (Inl (''failed to create request: '' @ err), h)
      | None \<Rightarrow>
          (let req = pipedriveRequest p method endpoint body
           in case Do e h req of
                Inl err \<Rightarrow> (Inl (''failed to make request: '' @ err), h @ [HttpDo req])
              | Inr resp \<Rightarrow> (Inr (resp\<lparr>ReadErr := None\<rparr>), h @ [HttpDo req])))"

text \<open>
  \<open>GetPersonByID\<close>. The result is the pointer \<open>result.Data\<close>, which is nil (\<open>None\<close>) when
  the response has no \<open>data\<close>.
\<close>

definition GetPersonByID ::
  "env \<Rightarrow> PipedriveService \<Rightarrow> int \<Rightarrow> effect list
     \<Rightarrow> (error + PipedrivePerson option) \<times> effect list" where
  "GetPersonByID e p personID h =
     (let endpoint = ''/persons/'' @ FormatInt personID
      in case makePipedriveRequest e p ''GET'' endpoint None h of
           (Inl err, h') \<Rightarrow> (Inl err, h')
         | (Inr resp, h') \<Rightarrow>
             if StatusCode resp \<noteq> 200
             then (Inl (''failed to get person: HTTP '' @ FormatInt (StatusCode resp)), h')
             else case DecodePerson e (BodyBytes resp) of
                    Inl err \<Rightarrow> (Inl err, h')
                  | Inr result \<Rightarrow>
                      if \<not> Person_Success result then (Inl ''failed to get person'', h')
                      else (Inr (Person_Data result), h'))"

text \<open>
  \<open>CreateRetellCall\<close>. The request body is a \<open>RetellCallRequest\<close>, which
  \<open>json.Marshal\<close> always encodes.
\<close>

definition CreateRetellCall ::
  "env \<Rightarrow> PipedriveService \<Rightarrow> string \<Rightarrow> string \<Rightarrow> string \<Rightarrow> effect list
     \<Rightarrow> (error + string) \<times> effect list" where
  "CreateRetellCall e p phoneNumber personName leadTitle h =
     (if RetellAPIKey (config p) = '''' \<or> RetellAssistantID (config p) = ''''
      then (Inl ''Retell AI not configured: missing API key or assistant ID'', h)
      else
        (let callRequest = JObj
               [(''from_number'', JStr (RetellFromNumber (config p))),
                (''to_number'', JStr phoneNumber),
                (''assistant_id'', JStr (RetellAssistantID (config p))),
                (''max_duration_seconds'', JInt 300),
                (''dynamic_variables'',
                   JObj [(''person_name'', JStr personName), (''lead_title'', JStr leadTitle)])];
             url = RetellBaseURL (config p) @ ''/v2/create-phone-call''
         in case NewRequest e ''POST'' url of
              Some err \<Rightarrow> (Inl (''failed to create request: '' @ err), h)
            | None \<Rightarrow>
                (let req = \<lparr>Method = ''POST'', URL = url,
                            Header = [(''Content-Type'', ''application/json''),
                                      (''Authorization'', ''Bearer '' @ RetellAPIKey (config p))],
                            Body = Some callRequest\<rparr>;
                     h' = h @ [HttpDo req]
                 in case Do e h req of
                      Inl err \<Rightarrow> (Inl (''failed to make Retell AI request: '' @ err), h')
                    | Inr resp \<Rightarrow>
                        (case ReadErr resp of
                           Some err \<Rightarrow> (Inl (''failed to read response body: '' @ err), h')
                         | None \<Rightarrow>
                             if StatusCode resp = 200 \<or> StatusCode resp = 201
                             then
                               (case UnmarshalCallResponse e (BodyBytes resp) of
                                  Inr callResponse \<Rightarrow> (Inr (Response_CallID callResponse), h')
                                | Inl err \<Rightarrow>
                                    (let failed = (Inl (''failed to parse Retell AI response: ''
                                                          @ err), h')
                                     in case UnmarshalMap e (BodyBytes resp) of
                                          Inl _ \<Rightarrow> failed
                                        | Inr responseMap \<Rightarrow>
                                            (case map_of responseMap ''call_id'' of
                                               Some (JStr callID) \<Rightarrow> (Inr callID, h')
                                             | _ \<Rightarrow>
                                                 (case map_of responseMap ''id'' of
                                                    Some (JStr callID) \<Rightarrow> (Inr callID, h')
                                                  | _ \<Rightarrow> failed))))
                             else (Inl (''Retell AI call failed: HTTP ''
                                          @ FormatInt (StatusCode resp) @ '', Response: ''
                                          @ BodyBytes resp), h')))))"

section \<open>Event processor: lead created\<close>

text \<open>
  What a processor does: it returns an error or nil, or it panics (a nil pointer is
  dereferenced).
\<close>

datatype outcome = Returned "error option" | Panicked

definition LF :: string where
  "LF = [CHR 0x0A]"

text \<open>
  \<open>ProcessPipedriveLead\<close>. The result is the outcome, the service with its store, and
  the history. \<open>extractPhoneFromPerson\<close> dereferences the person, so a nil person is a
  panic there.
\<close>

definition ProcessPipedriveLead ::
  "env \<Rightarrow> PipedriveService \<Rightarrow> PipedriveLeadWebhookPayload \<Rightarrow> effect list
     \<Rightarrow> outcome \<times> PipedriveService \<times> effect list" where
  "ProcessPipedriveLead e p payload h =
     (if Action (Meta payload) \<noteq> ''create'' then (Returned None, p, h)
      else if HasPipedriveConfig (config p) \<and> HasRetellConfig (config p) then
        (case GetPersonByID e p (Data_PersonID (Data payload)) h of
           (Inl err, h1) \<Rightarrow> (Returned (Some (''failed to get person details: '' @ err)), p, h1)
         | (Inr None, h1) \<Rightarrow> (Panicked, p, h1)
         | (Inr (Some person), h1) \<Rightarrow>
             (let phoneNumber = extractPhoneFromPerson person
              in if phoneNumber = '''' then (Returned None, p, h1)
                 else
                   (let (callID, h3) =
                          (case CreateRetellCall e p phoneNumber (Name person)
                                  (Data_Title (Data payload)) h1 of
                             (Inl err, h2) \<Rightarrow>
                               (''failed-'' @ FormatInt (Now e h2), h2 @ [ClockNow])
                           | (Inr callID, h2) \<Rightarrow> (callID, h2));
                        (p', h4) = storeCallMapping e p callID (Name person) phoneNumber
                                     (Data_Title (Data payload)) (Data_PersonID (Data payload)) h3;
                        due_date = FormatTime e (Now e h4) ''2006-01-02'';
                        h5 = h4 @ [ClockNow];
                        due_time = FormatTime e (Now e h5 + 5 * 60) ''15:04:05'';
                        h6 = h5 @ [ClockNow];
                        activityData = JObj
                          [(''subject'',
                              JStr (''AI Call Initiated - Lead: '' @ Data_Title (Data payload))),
                           (''type'', JStr ''call''),
                           (''person_id'', JInt (Data_PersonID (Data payload))),
                           (''note'',
                              JStr (''Retell AI call initiated for lead: ''
                                      @ Data_Title (Data payload) @ LF @ ''Call ID: '' @ callID
                                      @ LF @ ''Phone: '' @ phoneNumber)),
                           (''done'', JInt 0),
                           (''due_date'', JStr due_date),
                           (''due_time'', JStr due_time)];
                        (_, h7) = makePipedriveRequest e p ''POST'' ''/activities''
                                    (Some activityData) h6
                    in (Returned None, p', h7))))
      else (Returned None, p, h))"

section \<open>Event processor: call analyzed\<close>

text \<open>
  \<open>FindOrCreateContactByPhone\<close>. Inside the branch that returns a found person, and
  after the create request, the source declares a new local \<open>phone\<close>; the search
  endpoint and the body of the create request use the parameter.
\<close>

definition FindOrCreateContactByPhone ::
  "env \<Rightarrow> PipedriveService \<Rightarrow> string \<Rightarrow> effect list \<Rightarrow> (error + Contact) \<times> effect list" where
  "FindOrCreateContactByPhone e p phone h =
     (if HasPipedriveConfig (config p) then
        (let searchEndpoint = ''/persons/search?term='' @ phone @ ''&fields=phone''
         in case makePipedriveRequest e p ''GET'' searchEndpoint None h of
              (Inl err, h1) \<Rightarrow> (Inl (''failed to search contact: '' @ err), h1)
            | (Inr resp, h1) \<Rightarrow>
                (case DecodeSearch e (BodyBytes resp) of
                   Inl err \<Rightarrow> (Inl (''failed to decode search response: '' @ err), h1)
                 | Inr searchResult \<Rightarrow>
                     (case (if Search_Success searchResult then Search_Items searchResult
                            else []) of
                        person # _ \<Rightarrow>
                          (Inr \<lparr>Contact_ID = FormatInt (ID person),
                                Contact_Name = Name person,
                                Contact_Email =
                                  (case Email person of [] \<Rightarrow> '''' | m # _ \<Rightarrow> Value m),
                                Contact_Phone =
                                  (case Phone person of [] \<Rightarrow> '''' | ph # _ \<Rightarrow> Value ph),
                                DNC = False\<rparr>, h1)
                      | [] \<Rightarrow>
                          (let createData = JObj
                                 [(''name'', JStr ''Unknown Caller''),
                                  (''phone'', JArr [JObj [(''value'', JStr phone)]])]
                           in case makePipedriveRequest e p ''POST'' ''/persons''
                                     (Some createData) h1 of
                                (Inl err, h2) \<Rightarrow> (Inl (''failed to create contact: '' @ err), h2)
                              | (Inr resp2, h2) \<Rightarrow>
                                  (case DecodePerson e (BodyBytes resp2) of
                                     Inl err \<Rightarrow>
                                       (Inl (''failed to decode create response: '' @ err), h2)
                                   | Inr createResult \<Rightarrow>
                                       (case (if Person_Success createResult
                                              then Person_Data createResult else None) of
                                          None \<Rightarrow>
                                            (Inl ''failed to create contact in Pipedrive'', h2)
                                        | Some person \<Rightarrow>
                                            (Inr \<lparr>Contact_ID = FormatInt (ID person),
                                                  Contact_Name = Name person,
                                                  Contact_Email =
                                                    (case Email person of
                                                       [] \<Rightarrow> '''' | m # _ \<Rightarrow> Value m),
                                                  Contact_Phone =
                                                    (case Phone person of
                                                       [] \<Rightarrow> '''' | ph # _ \<Rightarrow> Value ph),
                                                  DNC = False\<rparr>, h2)))))))
      else
        (Inr \<lparr>Contact_ID = NewUUID e h, Contact_Name = ''Unknown Caller'',
              Contact_Email = '''', Contact_Phone = phone, DNC = False\<rparr>,
         h @ [UUIDNew]))"

text \<open>\<open>UpdatePersonWithCallData\<close>: the three custom fields of the person.\<close>

definition UpdatePersonWithCallData ::
  "env \<Rightarrow> PipedriveService \<Rightarrow> int \<Rightarrow> string \<Rightarrow> string \<Rightarrow> string \<Rightarrow> effect list
     \<Rightarrow> error option \<times> effect list" where
  "UpdatePersonWithCallData e p personID transcript duration date h =
     (let updateData = JObj
            [(''b4073939104c3d1283e703c3b3e9fb261a16b137'', JStr transcript),
             (''22d4bfd3fc0227ef6f8a594346c30545b069d5fd'', JStr duration),
             (''80347870cd9400fbc1a1d03bd082df463321bad5'', JStr date)];
          endpoint = ''/persons/'' @ FormatInt personID
      in case makePipedriveRequest e p ''PUT'' endpoint (Some updateData) h of
           (Inl err, h') \<Rightarrow> (Some (''failed to update person with call data: '' @ err), h')
         | (Inr resp, h') \<Rightarrow>
             if StatusCode resp \<noteq> 200
             then (Some (''failed to update person: HTTP '' @ FormatInt (StatusCode resp)), h')
             else (None, h'))"

text \<open>The two note builders: the arguments of their \<open>fmt.Sprintf\<close>, in order.\<close>

definition buildCallAnalyzedNote ::
  "env \<Rightarrow> RetellCallAnalyzedPayload \<Rightarrow> int \<Rightarrow> int \<Rightarrow> string \<Rightarrow> json" where
  "buildCallAnalyzedNote e payload startTime endTime duration =
     JNote ''buildCallAnalyzedNote''
       [AStr (CallID (Call payload)),
        AStr (AgentName (Call payload)),
        AInt (AgentVersion (Call payload)),
        AStr (CallType (Call payload)),
        AStr (CallStatus (Call payload)),
        AStr duration,
        AStr (FormatTime e startTime ''Monday, January 2, 2006 at 3:04 PM''),
        AStr (FormatTime e endTime ''Monday, January 2, 2006 at 3:04 PM''),
        AStr (DisconnectionReason (Call payload)),
        AStr (CallSummary (Analysis (Call payload))),
        AStr (UserSentiment (Analysis (Call payload))),
        ABool (CallSuccessful (Analysis (Call payload))),
        ABool (InVoicemail (Analysis (Call payload))),
        AStr (Transcript (Call payload)),
        AStr (RecordingURL (Call payload)),
        AStr (RecordingMultiChannelURL (Call payload)),
        AStr (PublicLogURL (Call payload))]"

definition buildCallAnalyzedNoteWithPerson ::
  "env \<Rightarrow> RetellCallAnalyzedPayload \<Rightarrow> int \<Rightarrow> int \<Rightarrow> string \<Rightarrow> string \<Rightarrow> string \<Rightarrow> string
     \<Rightarrow> json" where
  "buildCallAnalyzedNoteWithPerson e payload startTime endTime duration personName leadTitle
       phoneNumber =
     JNote ''buildCallAnalyzedNoteWithPerson''
       [AStr personName,
        AStr phoneNumber,
        AStr leadTitle,
        AStr (FormatTime e startTime ''2006-01-02''),
        AStr (FormatTime e startTime ''15:04:05''),
        AStr (FormatTime e endTime ''15:04:05''),
        AStr duration,
        AStr (CallSummary (Analysis (Call payload))),
        AStr (UserSentiment (Analysis (Call payload))),
        ABool (CallSuccessful (Analysis (Call payload))),
        AStr (DisconnectionReason (Call payload)),
        AStr (AgentName (Call payload)),
        AInt (AgentVersion (Call payload)),
        AStr (CallID (Call payload)),
        AStr (Transcript (Call payload))]"

text \<open>
  The body of the activity both branches of \<open>ProcessRetellCallAnalyzed\<close> post; they
  differ in the person and in the note.
\<close>

definition analyzedActivityData ::
  "env \<Rightarrow> RetellCallAnalyzedPayload \<Rightarrow> int \<Rightarrow> string \<Rightarrow> int \<Rightarrow> json \<Rightarrow> json" where
  "analyzedActivityData e payload personID duration startTime note =
     JObj [(''subject'', JStr (''AI Call Analyzed - '' @ AgentName (Call payload))),
           (''type'', JStr ''call''),
           (''person_id'', JInt personID),
           (''duration'', JStr duration),
           (''note'', note),
           (''done'', JInt 1),
           (''due_date'', JStr (FormatTime e startTime ''2006-01-02'')),
           (''due_time'', JStr (FormatTime e startTime ''15:04:05''))]"

text \<open>
  \<open>ProcessRetellCallAnalyzed\<close>. It never writes to the store, so the result is the
  outcome and the history. After the activity is created, the log line reads
  \<open>activityResult.Data.ID\<close>: a response with \<open>success\<close> and no \<open>data\<close> is a panic there.
\<close>

definition ProcessRetellCallAnalyzed ::
  "env \<Rightarrow> PipedriveService \<Rightarrow> RetellCallAnalyzedPayload \<Rightarrow> effect list
     \<Rightarrow> outcome \<times> effect list" where
  "ProcessRetellCallAnalyzed e p payload h =
     (if HasPipedriveConfig (config p) then
        (let startTime = quo (StartTimestamp (Call payload)) 1000;
             endTime = quo (EndTimestamp (Call payload)) 1000;
             durationSeconds = quo (DurationMs (Call payload)) 1000;
             hours = quo durationSeconds 3600;
             minutes = quo (rem durationSeconds 3600) 60;
             seconds = rem durationSeconds 60;
             duration = Format02d hours @ '':'' @ Format02d minutes @ '':'' @ Format02d seconds;
             (callMapping, exists) = getCallMapping p (CallID (Call payload))
         in if \<not> exists then
              (case FindOrCreateContactByPhone e p ''Unknown'' h of
                 (Inl err, h1) \<Rightarrow>
                   (Returned (Some (''failed to find/create contact: '' @ err)), h1)
               | (Inr contact, h1) \<Rightarrow>
                   (case Atoi (Quote e) (Contact_ID contact) of
                      Inl err \<Rightarrow> (Returned (Some (''invalid contact ID: '' @ err)), h1)
                    | Inr personID \<Rightarrow>
                        (let (_, h2) = UpdatePersonWithCallData e p personID
                                         (Transcript (Call payload)) duration
                                         (FormatTime e startTime ''2006-01-02'') h1;
                             activityData = analyzedActivityData e payload personID duration
                                              startTime
                                              (buildCallAnalyzedNote e payload startTime endTime
                                                 duration)
                         in case makePipedriveRequest e p ''POST'' ''/activities''
                                   (Some activityData) h2 of
                              (Inl err, h3) \<Rightarrow>
                                (Returned (Some (''failed to create call activity: '' @ err)), h3)
                            | (Inr _, h3) \<Rightarrow> (Returned None, h3))))
            else
              (let personID = PersonID callMapping;
                   (_, h1) = UpdatePersonWithCallData e p personID (Transcript (Call payload))
                               duration (FormatTime e startTime ''2006-01-02'') h;
                   activityData = analyzedActivityData e payload personID duration startTime
                                    (buildCallAnalyzedNoteWithPerson e payload startTime endTime
                                       duration (PersonName callMapping) (LeadTitle callMapping)
                                       (PhoneNumber callMapping))
               in case makePipedriveRequest e p ''POST'' ''/activities'' (Some activityData) h1 of
                    (Inl err, h2) \<Rightarrow>
                      (Returned (Some (''failed to create call activity: '' @ err)), h2)
                  | (Inr resp, h2) \<Rightarrow>
                      (case DecodeActivity e (BodyBytes resp) of
                         Inl err \<Rightarrow>
                           (Returned (Some (''failed to decode activity response: '' @ err)), h2)
                       | Inr activityResult \<Rightarrow>
                           if \<not> Activity_Success activityResult
                           then (Returned (Some ''failed to create call activity in Pipedrive''),
                                 h2)
                           else
                             (case Activity_Data activityResult of
                                None \<Rightarrow> (Panicked, h2)
                              | Some _ \<Rightarrow>
                                  (let noteData = JObj
                                         [(''content'',
                                             JStr (''Call Analysis:'' @ LF @ LF
                                                     @ CallSummary (Analysis (Call payload))
                                                     @ LF @ LF @ ''Full Transcript:'' @ LF
                                                     @ Transcript (Call payload))),
                                          (''person_id'', JInt personID)];
                                       (_, h3) = makePipedriveRequest e p ''POST'' ''/notes''
                                                   (Some noteData) h2
                                   in (Returned None, h3))))))
      else (Returned None, h))"

section \<open>Webhook handler: lead created\<close>

text \<open>
  \<open>WebhookResponse\<close> (models.go) and what a handler does with the request: it writes a
  status and a JSON body (\<open>c.JSON\<close>), or the panic of the processor passes through it
  to the router's recovery middleware.
\<close>

record WebhookResponse =
  Success :: bool
  Message :: string
  ResponseData :: "json option"

datatype reply = JSON int WebhookResponse | Panics

text \<open>
  \<open>PipedriveLeadWebhookHandler\<close> (handlers.go), on the bytes of the request body. The
  method it calls on the service is an argument of \<open>PipedriveLeadWebhookHandler_of\<close>, so
  that a result that is the same for every such argument shows that the method is not
  called; the handler itself calls \<open>ProcessPipedriveLead\<close>.
\<close>

definition PipedriveLeadWebhookHandler_of ::
  "(PipedriveService \<Rightarrow> PipedriveLeadWebhookPayload \<Rightarrow> effect list
      \<Rightarrow> outcome \<times> PipedriveService \<times> effect list)
   \<Rightarrow> env \<Rightarrow> PipedriveService \<Rightarrow> string \<Rightarrow> effect list
   \<Rightarrow> reply \<times> PipedriveService \<times> effect list" where
  "PipedriveLeadWebhookHandler_of process e p body h =
     (case BindLead e body of
        Inl err \<Rightarrow>
          (JSON 400 \<lparr>Success = False, Message = ''Invalid JSON payload'',
                     ResponseData = None\<rparr>, p, h)
      | Inr payload \<Rightarrow>
          if Data_ID (Data payload) = '''' \<or> Data_PersonID (Data payload) = 0
          then (JSON 400 \<lparr>Success = False,
                          Message = ''Missing required fields: data.id and data.person_id'',
                          ResponseData = None\<rparr>, p, h)
          else
            (case process p payload h of
               (Returned (Some err), p', h') \<Rightarrow>
                 (JSON 500 \<lparr>Success = False, Message = ''Failed to process lead: '' @ err,
                            ResponseData = None\<rparr>, p', h')
             | (Panicked, p', h') \<Rightarrow> (Panics, p', h')
             | (Returned None, p', h') \<Rightarrow>
                 (JSON 200 \<lparr>Success = True,
                            Message = ''Pipedrive lead webhook processed successfully'',
                            ResponseData = Some (JObj
                              [(''lead_id'', JStr (Data_ID (Data payload))),
                               (''person_id'', JInt (Data_PersonID (Data payload))),
                               (''title'', JStr (Data_Title (Data payload))),
                               (''action'', JStr (Action (Meta payload)))])\<rparr>, p', h')))"

definition PipedriveLeadWebhookHandler ::
  "env \<Rightarrow> PipedriveService \<Rightarrow> string \<Rightarrow> effect list \<Rightarrow> reply \<times> PipedriveService \<times> effect list" where
  "PipedriveLeadWebhookHandler e =
     PipedriveLeadWebhookHandler_of (ProcessPipedriveLead e) e"

section \<open>Example inputs\<close>

text \<open>
  A configured service with an empty store, a person with the given phone values, a
  lead event with the given action, and an environment whose network answers by the
  given function and whose decoders return fixed values.
\<close>

definition example_config :: Config where
  "example_config =
     \<lparr>Port = ''8080'', Host = ''0.0.0.0'', PipedriveAPIKey = ''pd-key'',
      PipedriveBaseURL = ''https://api.pipedrive.com/v1'', PipedriveCompanyID = '''',
      RetellAPIKey = ''rt-key'', RetellAssistantID = ''agent-1'',
      RetellBaseURL = ''https://api.retellai.com'', RetellFromNumber = ''18005300627'',
      RetellWebhookSecret = '''', CalWebhookSecret = '''', LogLevel = ''info''\<rparr>"

definition example_service :: PipedriveService where
  "example_service = NewPipedriveService example_config"

definition example_person :: "string list \<Rightarrow> PipedrivePerson" where
  "example_person vs =
     \<lparr>ID = 139, Name = ''Jane'', Email = [],
      Phone = map (\<lambda>v. \<lparr>Label = ''work'', Value = v, Primary = True\<rparr>) vs\<rparr>"

definition example_lead :: "string \<Rightarrow> string \<Rightarrow> PipedriveLeadWebhookPayload" where
  "example_lead lead_id action =
     \<lparr>Data = \<lparr>Data_ID = lead_id, Data_PersonID = 139, Data_Title = ''Website enquiry''\<rparr>,
      Meta = \<lparr>Action = action\<rparr>\<rparr>"

definition example_mapping :: CallMapping where
  "example_mapping =
     \<lparr>PersonName = ''Jane'', PhoneNumber = ''+12125550100'', LeadTitle = ''Website enquiry'',
      PersonID = 139, Timestamp = 1700000000\<rparr>"

definition example_analyzed :: "string \<Rightarrow> RetellCallAnalyzedPayload" where
  "example_analyzed call_id =
     \<lparr>Event = ''call_analyzed'',
      Call = \<lparr>CallID = call_id, CallType = ''phone_call'', AgentID = ''agent-1'',
               AgentVersion = 1, AgentName = ''Sales'', CallStatus = ''ended'',
               StartTimestamp = 1700000100000, EndTimestamp = 1700000165000,
               DurationMs = 65000, Transcript = ''Hello'', DisconnectionReason = ''user_hangup'',
               Analysis = \<lparr>CallSummary = ''Short call'', InVoicemail = False,
                            UserSentiment = ''Positive'', CallSuccessful = True\<rparr>,
               RecordingURL = '''', RecordingMultiChannelURL = '''', PublicLogURL = ''''\<rparr>\<rparr>"

definition example_response :: response where
  "example_response = \<lparr>StatusCode = 200, BodyBytes = ''{}'', ReadErr = None\<rparr>"

definition example_activity :: PipedriveActivity where
  "example_activity =
     \<lparr>Activity_ID = 7, Activity_Subject = '''', Activity_Type = ''call'',
      Activity_DueDate = '''', Activity_PersonID = 139, Activity_Note = '''',
      Activity_Duration = '''', Activity_MeetingURL = ''''\<rparr>"

definition example_env ::
  "(request \<Rightarrow> error + response) \<Rightarrow> PipedrivePerson option \<Rightarrow> string \<Rightarrow> env" where
  "example_env answer person lead_id =
     \<lparr>NewRequest = (\<lambda>method url. None),
      Do = (\<lambda>h req. answer req),
      Now = (\<lambda>h. 1700000000 + int (length h)),
      NewUUID = (\<lambda>h. ''3b241101-e2bb-4255-8caf-4136c566a962''),
      FormatTime = (\<lambda>t layout. FormatInt t),
      Quote = (\<lambda>s. s),
      DecodePerson = (\<lambda>b. Inr \<lparr>Person_Success = True, Person_Data = person\<rparr>),
      DecodeSearch =
        (\<lambda>b. Inr \<lparr>Search_Success = True, Search_Data = None, Search_Items = []\<rparr>),
      DecodeActivity =
        (\<lambda>b. Inr \<lparr>Activity_Success = True, Activity_Data = Some example_activity\<rparr>),
      UnmarshalCallResponse =
        (\<lambda>b. Inr \<lparr>Response_CallID = ''call_1'', Response_Status = ''registered''\<rparr>),
      UnmarshalMap = (\<lambda>b. Inl ''unexpected end of JSON input''),
      BindLead = (\<lambda>b. Inr (example_lead lead_id b))\<rparr>"

text \<open>Three networks: every request answered, none answered, only GET answered.\<close>

definition answer_all :: "request \<Rightarrow> error + response" where
  "answer_all req = Inr example_response"

definition answer_none :: "request \<Rightarrow> error + response" where
  "answer_none req = Inl ''connection refused''"

definition answer_get :: "request \<Rightarrow> error + response" where
  "answer_get req = (if Method req = ''GET'' then Inr example_response else Inl ''timeout'')"

section \<open>Properties of the library functions\<close>

lemma ReplaceAll_remove: "ReplaceAll s [c] [] = filter (\<lambda>x. x \<noteq> c) s"
  by (induction s) (auto simp: HasPrefix_def)

text \<open>
  What \<open>extractPhoneFromPerson\<close> computes: the separators are removed, and \<open>+1\<close> is put
  in front unless the text already starts with \<open>+\<close>. The second test of the source can
  never hold, since it is only reached by a text that starts with \<open>+\<close>.
\<close>

lemma extractPhoneFromPerson_eq:
  "extractPhoneFromPerson person =
     (case Phone person of
        [] \<Rightarrow> ''''
      | ph # _ \<Rightarrow>
          (let cleaned = filter (\<lambda>c. c \<notin> set '' -()'') (Value ph)
           in if HasPrefix cleaned ''+'' then cleaned else ''+1'' @ cleaned))"
  by (auto simp: extractPhoneFromPerson_def ReplaceAll_remove HasPrefix_def Let_def
           split: list.splits intro!: filter_cong)

lemma extractPhoneFromPerson_empty_iff:
  "extractPhoneFromPerson person = '''' \<longleftrightarrow> Phone person = []"
  by (auto simp: extractPhoneFromPerson_eq HasPrefix_def Let_def split: list.splits)

section \<open>Phone normalization\<close>

text \<open>
  C1. Normalization of a contact's phone number strips spaces, dashes and parentheses
  and prefixes \<open>+1\<close> to a number without a leading \<open>+\<close>; a number with a leading \<open>1\<close>
  and no \<open>+\<close> should only get the \<open>+\<close>. The function returns \<open>+15551234567\<close> for
  \<open>(555) 123-4567\<close> and leaves \<open>+15551234567\<close> as it is, but for \<open>15551234567\<close> it
  returns \<open>+115551234567\<close>, not \<open>+15551234567\<close>.
\<close>

theorem extractPhoneFromPerson_leading_one:
  "extractPhoneFromPerson (example_person [''(555) 123-4567'']) = ''+15551234567'' \<and>
   extractPhoneFromPerson (example_person [''+15551234567'']) = ''+15551234567'' \<and>
   extractPhoneFromPerson (example_person [''15551234567'']) = ''+115551234567'' \<and>
   extractPhoneFromPerson (example_person [''15551234567'']) \<noteq> ''+15551234567''"
  by (simp add: extractPhoneFromPerson_eq example_person_def HasPrefix_def)

section \<open>Round trip through the correlation store\<close>

text \<open>
  C5. Storing a mapping with \<open>storeCallMapping\<close> and then resolving the same call
  identifier with \<open>getCallMapping\<close> finds it and returns exactly the stored person
  name, phone number, lead title and person id, with the time of the store.
\<close>

theorem store_then_get:
  "getCallMapping (fst (storeCallMapping e p callID personName phoneNumber leadTitle personID h))
       callID =
     (\<lparr>PersonName = personName, PhoneNumber = phoneNumber, LeadTitle = leadTitle,
       PersonID = personID, Timestamp = Now e h\<rparr>, True)"
  by (simp add: getCallMapping_def storeCallMapping_def)

theorem store_then_get_witness:
  "getCallMapping
     (fst (storeCallMapping (example_env answer_all None ''lead-1'') example_service
             ''call_1'' ''Jane'' ''+12125550100'' ''Website enquiry'' 139 []))
     ''call_1'' = (example_mapping, True)"
  using store_then_get [of "example_env answer_all None ''lead-1''" example_service
          "''call_1''" "''Jane''" "''+12125550100''" "''Website enquiry''" 139 "[]"]
  by (simp add: example_env_def example_mapping_def)

section \<open>Lead created\<close>

lemma GetPersonByID_history:
  assumes "GetPersonByID e p personID h = (Inr r, h1)"
  shows "h1 = h @ [HttpDo (pipedriveRequest p ''GET'' (''/persons/'' @ FormatInt personID) None)]"
  using assms
  by (auto simp: GetPersonByID_def makePipedriveRequest_def Let_def
           split: option.splits sum.splits if_splits prod.splits)

text \<open>
  C6. A lead event whose action is not \<open>create\<close> is a successful no-op: the processor
  returns nil, the store is unchanged, and nothing is requested from the call platform
  or from anything else (the history is unchanged).
\<close>

theorem lead_other_action_noop:
  "Action (Meta payload) \<noteq> ''create'' \<Longrightarrow>
     ProcessPipedriveLead e p payload h = (Returned None, p, h)"
  by (simp add: ProcessPipedriveLead_def)

theorem lead_other_action_noop_witness:
  "Action (Meta (example_lead ''lead-1'' ''update'')) \<noteq> ''create'' \<and>
   ProcessPipedriveLead (example_env answer_all None ''lead-1'') example_service
       (example_lead ''lead-1'' ''update'') [] = (Returned None, example_service, [])"
proof -
  have a: "Action (Meta (example_lead ''lead-1'' ''update'')) \<noteq> ''create''"
    by (simp add: example_lead_def)
  show ?thesis
    using a lead_other_action_noop [OF a] by simp
qed

text \<open>
  C7. A \<open>create\<close> event whose fetched person has an empty phone list: the only request
  made is the GET of the person, so no call is requested; the store is unchanged; the
  processor returns nil and the handler answers 200 with \<open>success\<close>.
\<close>

theorem lead_without_phone_noop:
  assumes "BindLead e body = Inr payload"
    and "Data_ID (Data payload) \<noteq> ''''" and "Data_PersonID (Data payload) \<noteq> 0"
    and "Action (Meta payload) = ''create''"
    and "HasPipedriveConfig (config p)" and "HasRetellConfig (config p)"
    and "GetPersonByID e p (Data_PersonID (Data payload)) h = (Inr (Some person), h1)"
    and "Phone person = []"
  shows "ProcessPipedriveLead e p payload h =
           (Returned None, p,
            h @ [HttpDo (pipedriveRequest p ''GET''
                           (''/persons/'' @ FormatInt (Data_PersonID (Data payload))) None)]) \<and>
         (\<exists>resp. PipedriveLeadWebhookHandler e p body h =
            (JSON 200 resp, p,
             h @ [HttpDo (pipedriveRequest p ''GET''
                            (''/persons/'' @ FormatInt (Data_PersonID (Data payload))) None)])
            \<and> Success resp)"
proof -
  have "extractPhoneFromPerson person = ''''"
    using assms(8) by (simp add: extractPhoneFromPerson_def)
  moreover note GetPersonByID_history [OF assms(7)]
  ultimately have "ProcessPipedriveLead e p payload h =
           (Returned None, p,
            h @ [HttpDo (pipedriveRequest p ''GET''
                           (''/persons/'' @ FormatInt (Data_PersonID (Data payload))) None)])"
    using assms(4-7) by (simp add: ProcessPipedriveLead_def)
  then show ?thesis
    using assms(1-3)
    by (simp add: PipedriveLeadWebhookHandler_def PipedriveLeadWebhookHandler_of_def)
qed

lemma example_GetPersonByID:
  "GetPersonByID (example_env answer_get (Some person) lead_id) example_service 139 [] =
     (Inr (Some person),
      [HttpDo (pipedriveRequest example_service ''GET'' ''/persons/139'' None)])"
  by (simp add: GetPersonByID_def makePipedriveRequest_def example_env_def answer_get_def
        pipedriveRequest_def example_response_def FormatInt_def digit_char_def)

theorem lead_without_phone_noop_witness:
  "ProcessPipedriveLead (example_env answer_get (Some (example_person [])) ''lead-1'')
       example_service (example_lead ''lead-1'' ''create'') [] =
     (Returned None, example_service,
      [HttpDo (pipedriveRequest example_service ''GET'' ''/persons/139'' None)]) \<and>
   (\<exists>resp. PipedriveLeadWebhookHandler
             (example_env answer_get (Some (example_person [])) ''lead-1'')
             example_service ''create'' [] =
      (JSON 200 resp, example_service,
       [HttpDo (pipedriveRequest example_service ''GET'' ''/persons/139'' None)])
      \<and> Success resp)"
proof -
  let ?e = "example_env answer_get (Some (example_person [])) ''lead-1''"
  let ?l = "example_lead ''lead-1'' ''create''"
  have b: "BindLead ?e ''create'' = Inr ?l"
    by (simp add: example_env_def)
  have v: "Data_ID (Data ?l) \<noteq> ''''" "Data_PersonID (Data ?l) \<noteq> 0"
      "Action (Meta ?l) = ''create''"
    by (simp_all add: example_lead_def)
  have c: "HasPipedriveConfig (config example_service)"
      "HasRetellConfig (config example_service)"
    by (simp_all add: HasPipedriveConfig_def HasRetellConfig_def example_service_def
          NewPipedriveService_def example_config_def)
  have g: "GetPersonByID ?e example_service (Data_PersonID (Data ?l)) [] =
             (Inr (Some (example_person [])),
              [HttpDo (pipedriveRequest example_service ''GET'' ''/persons/139'' None)])"
    using example_GetPersonByID by (simp add: example_lead_def)
  have n: "Phone (example_person []) = []"
    by (simp add: example_person_def)
  have f: "FormatInt (Data_PersonID (Data ?l)) = ''139''"
    by (simp add: example_lead_def FormatInt_def digit_char_def)
  show ?thesis
    using lead_without_phone_noop [OF b v c g n] by (simp add: f)
qed

text \<open>
  C4. A \<open>create\<close> event with a non-empty normalized phone number whose call creation
  fails: the processor still returns nil, and the store is the old store with one
  record written, under the identifier \<open>failed-\<close> followed by the decimal Unix time
  read right after the failure; the identifier is not empty and has the prefix
  \<open>failed-\<close>.
\<close>

theorem lead_call_failure_recorded:
  assumes "Action (Meta payload) = ''create''"
    and "HasPipedriveConfig (config p)" and "HasRetellConfig (config p)"
    and "GetPersonByID e p (Data_PersonID (Data payload)) h = (Inr (Some person), h1)"
    and "extractPhoneFromPerson person \<noteq> ''''"
    and "CreateRetellCall e p (extractPhoneFromPerson person) (Name person)
           (Data_Title (Data payload)) h1 = (Inl err, h2)"
  shows "\<exists>callID h'.
           callID = ''failed-'' @ FormatInt (Now e h2) \<and> callID \<noteq> '''' \<and>
           HasPrefix callID ''failed-'' \<and>
           ProcessPipedriveLead e p payload h =
             (Returned None,
              p\<lparr>callMappings := (callMappings p)(callID \<mapsto>
                   \<lparr>PersonName = Name person,
                    PhoneNumber = extractPhoneFromPerson person,
                    LeadTitle = Data_Title (Data payload),
                    PersonID = Data_PersonID (Data payload),
                    Timestamp = Now e (h2 @ [ClockNow])\<rparr>)\<rparr>,
              h')"
  using assms
  by (simp add: ProcessPipedriveLead_def storeCallMapping_def Let_def HasPrefix_def
           split: prod.splits)

lemma example_CreateRetellCall:
  "\<exists>req. CreateRetellCall (example_env answer_get person lead_id) example_service
            phone name title h = (Inl ''failed to make Retell AI request: timeout'', h @ [HttpDo req])"
  by (simp add: CreateRetellCall_def example_env_def answer_get_def example_service_def
        NewPipedriveService_def example_config_def)

theorem lead_call_failure_recorded_witness:
  "\<exists>h'. ProcessPipedriveLead
           (example_env answer_get (Some (example_person [''+1 212-555-0100''])) ''lead-1'')
           example_service (example_lead ''lead-1'' ''create'') [] =
         (Returned None,
          example_service\<lparr>callMappings := [''failed-1700000002'' \<mapsto>
             \<lparr>PersonName = ''Jane'', PhoneNumber = ''+12125550100'',
              LeadTitle = ''Website enquiry'', PersonID = 139, Timestamp = 1700000003\<rparr>]\<rparr>,
          h')"
proof -
  let ?person = "example_person [''+1 212-555-0100'']"
  let ?e = "example_env answer_get (Some ?person) ''lead-1''"
  let ?l = "example_lead ''lead-1'' ''create''"
  let ?h1 = "[HttpDo (pipedriveRequest example_service ''GET'' ''/persons/139'' None)]"
  have v: "Action (Meta ?l) = ''create''"
    by (simp add: example_lead_def)
  have c: "HasPipedriveConfig (config example_service)"
      "HasRetellConfig (config example_service)"
    by (simp_all add: HasPipedriveConfig_def HasRetellConfig_def example_service_def
          NewPipedriveService_def example_config_def)
  have g: "GetPersonByID ?e example_service (Data_PersonID (Data ?l)) [] =
             (Inr (Some ?person), ?h1)"
    using example_GetPersonByID by (simp add: example_lead_def)
  have x: "extractPhoneFromPerson ?person = ''+12125550100''"
    by (simp add: extractPhoneFromPerson_eq example_person_def HasPrefix_def)
  then have n: "extractPhoneFromPerson ?person \<noteq> ''''"
    by simp
  obtain req where r: "CreateRetellCall ?e example_service (extractPhoneFromPerson ?person)
        (Name ?person) (Data_Title (Data ?l)) ?h1 =
      (Inl ''failed to make Retell AI request: timeout'', ?h1 @ [HttpDo req])"
    using example_CreateRetellCall by blast
  have now: "Now ?e hh = 1700000000 + int (length hh)" for hh
    by (simp add: example_env_def)
  have t: "FormatInt 1700000002 = ''1700000002''"
    by (simp add: FormatInt_def digit_char_def)
  have d: "Name ?person = ''Jane''" "Data_Title (Data ?l) = ''Website enquiry''"
      "Data_PersonID (Data ?l) = 139"
    by (simp_all add: example_person_def example_lead_def)
  have m: "callMappings example_service = Map.empty"
    by (simp add: example_service_def NewPipedriveService_def)
  show ?thesis
    using lead_call_failure_recorded [OF v c g n r]
    by (simp add: now t x d m)
qed

section \<open>Lead webhook handler\<close>

text \<open>
  C9. A lead webhook request whose body binds to a payload with an empty \<open>data.id\<close> or
  a zero \<open>data.person_id\<close> gets HTTP 400 with \<open>success\<close> false, whatever the processor
  would do: service and history are unchanged and the result is the same for every
  processor put in its place. A request that passes validation and whose processing
  returns nil gets HTTP 200 with \<open>success\<close> true.
\<close>

theorem lead_handler_validation:
  "(BindLead e body = Inr payload \<and>
      (Data_ID (Data payload) = '''' \<or> Data_PersonID (Data payload) = 0) \<longrightarrow>
      (\<forall>process. PipedriveLeadWebhookHandler_of process e p body h =
         (JSON 400 \<lparr>Success = False,
                    Message = ''Missing required fields: data.id and data.person_id'',
                    ResponseData = None\<rparr>, p, h)) \<and>
      PipedriveLeadWebhookHandler e p body h =
         (JSON 400 \<lparr>Success = False,
                    Message = ''Missing required fields: data.id and data.person_id'',
                    ResponseData = None\<rparr>, p, h)) \<and>
   (BindLead e body = Inr payload \<and> Data_ID (Data payload) \<noteq> '''' \<and>
      Data_PersonID (Data payload) \<noteq> 0 \<and>
      ProcessPipedriveLead e p payload h = (Returned None, p', h') \<longrightarrow>
      (\<exists>resp. PipedriveLeadWebhookHandler e p body h = (JSON 200 resp, p', h') \<and>
              Success resp))"
  by (auto simp: PipedriveLeadWebhookHandler_def PipedriveLeadWebhookHandler_of_def)

theorem lead_handler_validation_witness:
  "PipedriveLeadWebhookHandler (example_env answer_all None '''') example_service
       ''create'' [] =
     (JSON 400 \<lparr>Success = False,
                Message = ''Missing required fields: data.id and data.person_id'',
                ResponseData = None\<rparr>, example_service, []) \<and>
   (\<exists>resp. PipedriveLeadWebhookHandler (example_env answer_all None ''lead-1'')
             example_service ''update'' [] = (JSON 200 resp, example_service, []) \<and>
           Success resp)"
proof -
  let ?e = "example_env answer_all None ''''"
  let ?e' = "example_env answer_all None ''lead-1''"
  have b: "BindLead ?e ''create'' = Inr (example_lead '''' ''create'') \<and>
      (Data_ID (Data (example_lead '''' ''create'')) = '''' \<or>
       Data_PersonID (Data (example_lead '''' ''create'')) = 0)"
    by (simp add: example_env_def example_lead_def)
  have b': "BindLead ?e' ''update'' = Inr (example_lead ''lead-1'' ''update'') \<and>
      Data_ID (Data (example_lead ''lead-1'' ''update'')) \<noteq> '''' \<and>
      Data_PersonID (Data (example_lead ''lead-1'' ''update'')) \<noteq> 0 \<and>
      ProcessPipedriveLead ?e' example_service (example_lead ''lead-1'' ''update'') [] =
        (Returned None, example_service, [])"
    by (simp add: example_env_def example_lead_def ProcessPipedriveLead_def)
  show ?thesis
    using lead_handler_validation
            [of ?e "''create''" "example_lead '''' ''create''" example_service "[]"
                example_service "[]"]
          lead_handler_validation
            [of ?e' "''update''" "example_lead ''lead-1'' ''update''" example_service "[]"
                example_service "[]"]
          b b'
    by blast
qed

section \<open>Decimal text of an integer parses back\<close>

lemma digit_val_digit_char: "d < 10 \<Longrightarrow> digit_val (digit_char d) = Some d"
proof -
  assume "d < 10"
  then have "d \<in> {0, 1, 2, 3, 4, 5, 6, 7, 8, 9}"
    by auto
  then show ?thesis
    by (auto simp: digit_val_def digit_char_def)
qed

lemma ParseUint_snoc:
  "ParseUint n (xs @ [c]) =
     (case ParseUint n xs of
        Parsed a \<Rightarrow>
          (case digit_val c of
             None \<Rightarrow> ErrSyntax
           | Some d \<Rightarrow>
               if (2 ^ 64 - 1) div 10 + 1 \<le> a \<or> 2 ^ 64 - 1 < a * 10 + d then ErrRange
               else Parsed (a * 10 + d))
      | r \<Rightarrow> r)"
  by (induction xs arbitrary: n) (auto split: option.splits parsed.splits)

lemma ParseUint_FormatUint: "n < 2 ^ 64 \<Longrightarrow> ParseUint 0 (FormatUint n) = Parsed n"
proof (induction n rule: FormatUint.induct)
  case (1 n)
  show ?case
  proof (cases "n < 10")
    case True
    then show ?thesis
      by (subst FormatUint.simps) (simp add: digit_val_digit_char)
  next
    case False
    then have "ParseUint 0 (FormatUint (n div 10)) = Parsed (n div 10)"
      using "1.IH" "1.prems" by simp
    with False "1.prems" show ?thesis
      by (subst FormatUint.simps) (simp add: ParseUint_snoc digit_val_digit_char)
  qed
qed

lemma FormatUint_first:
  "\<exists>c cs. FormatUint n = c # cs \<and> digit_val c \<noteq> None"
proof (induction n rule: FormatUint.induct)
  case (1 n)
  show ?case
  proof (cases "n < 10")
    case True
    then show ?thesis
      by (subst FormatUint.simps) (simp add: digit_val_digit_char)
  next
    case False
    then obtain c cs where "FormatUint (n div 10) = c # cs" "digit_val c \<noteq> None"
      using "1.IH" by (auto simp del: FormatUint.simps)
    with False show ?thesis
      by (subst FormatUint.simps) (simp del: FormatUint.simps)
  qed
qed

lemma Atoi_FormatInt:
  assumes "- (2 ^ 63) \<le> i" and "i < 2 ^ 63"
  shows "Atoi quote (FormatInt i) = Inr i"
proof (cases "i < 0")
  case True
  obtain c cs where "FormatUint (nat (- i)) = c # cs"
    using FormatUint_first by blast
  moreover have "ParseUint 0 (FormatUint (nat (- i))) = Parsed (nat (- i))"
    using assms by (intro ParseUint_FormatUint) simp
  ultimately show ?thesis
    using True assms by (simp add: Atoi_def FormatInt_def)
next
  case False
  obtain c cs where c: "FormatUint (nat i) = c # cs" "digit_val c \<noteq> None"
    using FormatUint_first by blast
  then have "c \<noteq> CHR ''-''" "c \<noteq> CHR ''+''"
    by (auto simp: digit_val_def)
  moreover have "ParseUint 0 (FormatUint (nat i)) = Parsed (nat i)"
    using assms by (intro ParseUint_FormatUint) simp
  ultimately show ?thesis
    using False assms c by (simp add: Atoi_def FormatInt_def)
qed

section \<open>The history of a request to the CRM\<close>

lemma makePipedriveRequest_history:
  "snd (makePipedriveRequest e p method endpoint body h) =
     (if NewRequest e method (pipedriveURL p endpoint) = None
      then h @ [HttpDo (pipedriveRequest p method endpoint body)] else h)"
  by (simp add: makePipedriveRequest_def Let_def split: option.splits sum.splits)

lemma makePipedriveRequest_Inr:
  "makePipedriveRequest e p method endpoint body h = (Inr resp, h') \<Longrightarrow>
     h' = h @ [HttpDo (pipedriveRequest p method endpoint body)] \<and>
     (\<exists>r. Do e h (pipedriveRequest p method endpoint body) = Inr r \<and>
          BodyBytes resp = BodyBytes r \<and> StatusCode resp = StatusCode r)"
  by (auto simp: makePipedriveRequest_def Let_def split: option.splits sum.splits)

lemma UpdatePersonWithCallData_history:
  "snd (UpdatePersonWithCallData e p personID transcript duration date h) =
     snd (makePipedriveRequest e p ''PUT'' (''/persons/'' @ FormatInt personID)
            (Some (JObj [(''b4073939104c3d1283e703c3b3e9fb261a16b137'', JStr transcript),
                         (''22d4bfd3fc0227ef6f8a594346c30545b069d5fd'', JStr duration),
                         (''80347870cd9400fbc1a1d03bd082df463321bad5'', JStr date)])) h)"
  by (simp add: UpdatePersonWithCallData_def Let_def split: prod.splits sum.splits)

lemma pipedriveURL_activities_not_persons:
  "pipedriveURL p ''/activities'' \<noteq> pipedriveURL p ''/persons''"
  "pipedriveURL p ''/notes'' \<noteq> pipedriveURL p ''/persons''"
  "pipedriveURL p ''/notes'' \<noteq> pipedriveURL p ''/activities''"
  by (simp_all add: pipedriveURL_def HasPrefix_def)

section \<open>Call analyzed, call identifier in the store\<close>

text \<open>
  The requests \<open>ProcessRetellCallAnalyzed\<close> makes for a call identifier the store
  resolves: the update of the stored person, the activity for the stored person, and
  the transcript note for the stored person, and no other.
\<close>

lemma analyzed_known_call_requests:
  assumes "callMappings p (CallID (Call payload)) = Some m"
  shows "\<exists>new upd dur t note nd.
           snd (ProcessRetellCallAnalyzed e p payload h) = h @ new \<and>
           set new \<subseteq>
             {HttpDo (pipedriveRequest p ''PUT'' (''/persons/'' @ FormatInt (PersonID m))
                        (Some upd)),
              HttpDo (pipedriveRequest p ''POST'' ''/activities''
                        (Some (analyzedActivityData e payload (PersonID m) dur t note))),
              HttpDo (pipedriveRequest p ''POST'' ''/notes''
                        (Some (JObj [(''content'', nd), (''person_id'', JInt (PersonID m))])))} \<and>
           (HasPipedriveConfig (config p) \<and>
              NewRequest e ''POST'' (pipedriveURL p ''/activities'') = None \<longrightarrow>
              HttpDo (pipedriveRequest p ''POST'' ''/activities''
                        (Some (analyzedActivityData e payload (PersonID m) dur t note)))
                \<in> set new)"
proof (cases "HasPipedriveConfig (config p)")
  case False
  then have "snd (ProcessRetellCallAnalyzed e p payload h) = h @ []"
    by (simp add: ProcessRetellCallAnalyzed_def)
  with False show ?thesis
    by (metis empty_set empty_subsetI)
next
  case True
  let ?st = "quo (StartTimestamp (Call payload)) 1000"
  let ?en = "quo (EndTimestamp (Call payload)) 1000"
  let ?ds = "quo (DurationMs (Call payload)) 1000"
  let ?dur = "Format02d (quo ?ds 3600) @ '':'' @ Format02d (quo (rem ?ds 3600) 60)
                @ '':'' @ Format02d (rem ?ds 60)"
  let ?date = "FormatTime e ?st ''2006-01-02''"
  let ?upd = "JObj
            [(''b4073939104c3d1283e703c3b3e9fb261a16b137'', JStr (Transcript (Call payload))),
             (''22d4bfd3fc0227ef6f8a594346c30545b069d5fd'', JStr ?dur),
             (''80347870cd9400fbc1a1d03bd082df463321bad5'', JStr ?date)]"
  let ?act = "analyzedActivityData e payload (PersonID m) ?dur ?st
                (buildCallAnalyzedNoteWithPerson e payload ?st ?en ?dur
                   (PersonName m) (LeadTitle m) (PhoneNumber m))"
  let ?nd = "JObj [(''content'',
                      JStr (''Call Analysis:'' @ LF @ LF @ CallSummary (Analysis (Call payload))
                              @ LF @ LF @ ''Full Transcript:'' @ LF
                              @ Transcript (Call payload))),
                   (''person_id'', JInt (PersonID m))]"
  define PUT where "PUT = HttpDo (pipedriveRequest p ''PUT''
                                    (''/persons/'' @ FormatInt (PersonID m)) (Some ?upd))"
  define ACT where "ACT = HttpDo (pipedriveRequest p ''POST'' ''/activities'' (Some ?act))"
  define NOTE where "NOTE = HttpDo (pipedriveRequest p ''POST'' ''/notes'' (Some ?nd))"
  obtain u h1 where U: "UpdatePersonWithCallData e p (PersonID m) (Transcript (Call payload))
                          ?dur ?date h = (u, h1)"
    by fastforce
  obtain a h2 where A: "makePipedriveRequest e p ''POST'' ''/activities'' (Some ?act) h1 = (a, h2)"
    by fastforce
  obtain n h3 where N: "makePipedriveRequest e p ''POST'' ''/notes'' (Some ?nd) h2 = (n, h3)"
    by fastforce
  have p1: "h1 = h \<or> h1 = h @ [PUT]"
    using arg_cong [OF U, of snd]
    by (simp add: UpdatePersonWithCallData_history makePipedriveRequest_history PUT_def
          split: if_splits)
  have p2: "h2 = (if NewRequest e ''POST'' (pipedriveURL p ''/activities'') = None
                  then h1 @ [ACT] else h1)"
    using arg_cong [OF A, of snd]
    by (simp add: makePipedriveRequest_history ACT_def split: if_splits)
  have p3: "h3 = h2 \<or> h3 = h2 @ [NOTE]"
    using arg_cong [OF N, of snd]
    by (simp add: makePipedriveRequest_history NOTE_def split: if_splits)
  have res: "snd (ProcessRetellCallAnalyzed e p payload h) = h2 \<or>
             snd (ProcessRetellCallAnalyzed e p payload h) = h3"
    using True assms U A N
    by (simp add: ProcessRetellCallAnalyzed_def getCallMapping_def Let_def
          split: sum.splits option.splits)
  have "\<exists>new. snd (ProcessRetellCallAnalyzed e p payload h) = h @ new \<and>
          set new \<subseteq> {PUT, ACT, NOTE} \<and>
          (NewRequest e ''POST'' (pipedriveURL p ''/activities'') = None \<longrightarrow> ACT \<in> set new)"
    using res p1 p2 p3 by (auto split: if_splits)
  then obtain new where new: "snd (ProcessRetellCallAnalyzed e p payload h) = h @ new"
      "set new \<subseteq> {PUT, ACT, NOTE}"
      "NewRequest e ''POST'' (pipedriveURL p ''/activities'') = None \<longrightarrow> ACT \<in> set new"
    by auto
  let ?nt = "buildCallAnalyzedNoteWithPerson e payload ?st ?en ?dur
               (PersonName m) (LeadTitle m) (PhoneNumber m)"
  let ?content = "JStr (''Call Analysis:'' @ LF @ LF @ CallSummary (Analysis (Call payload))
                          @ LF @ LF @ ''Full Transcript:'' @ LF @ Transcript (Call payload))"
  have "snd (ProcessRetellCallAnalyzed e p payload h) = h @ new \<and>
        set new \<subseteq>
          {HttpDo (pipedriveRequest p ''PUT'' (''/persons/'' @ FormatInt (PersonID m))
                     (Some ?upd)),
           HttpDo (pipedriveRequest p ''POST'' ''/activities''
                     (Some (analyzedActivityData e payload (PersonID m) ?dur ?st ?nt))),
           HttpDo (pipedriveRequest p ''POST'' ''/notes''
                     (Some (JObj [(''content'', ?content),
                                  (''person_id'', JInt (PersonID m))])))} \<and>
        (HasPipedriveConfig (config p) \<and>
           NewRequest e ''POST'' (pipedriveURL p ''/activities'') = None \<longrightarrow>
           HttpDo (pipedriveRequest p ''POST'' ''/activities''
                     (Some (analyzedActivityData e payload (PersonID m) ?dur ?st ?nt)))
             \<in> set new)"
    using new unfolding PUT_def ACT_def NOTE_def by simp
  then show ?thesis
    apply -
    apply (rule exI [of _ new])
    apply (rule exI [of _ ?upd])
    apply (rule exI [of _ ?dur])
    apply (rule exI [of _ ?st])
    apply (rule exI [of _ ?nt])
    apply (rule exI [of _ ?content])
    apply assumption
    done
qed

text \<open>
  C2. For a call-analyzed event whose call identifier is in the store: every request
  that creates an activity carries the person id of the stored record and is marked
  done, no request creates a person, and when the CRM is configured and the request
  can be built, such an activity request is made.
\<close>

theorem analyzed_known_call_uses_stored_person:
  assumes "callMappings p (CallID (Call payload)) = Some m"
  shows "\<exists>new. snd (ProcessRetellCallAnalyzed e p payload h) = h @ new \<and>
           (\<forall>r. HttpDo r \<in> set new \<and> Method r = ''POST'' \<and>
                URL r = pipedriveURL p ''/activities'' \<longrightarrow>
                (\<exists>members. Body r = Some (JObj members) \<and>
                   map_of members ''person_id'' = Some (JInt (PersonID m)) \<and>
                   map_of members ''done'' = Some (JInt 1))) \<and>
           (\<forall>r. HttpDo r \<in> set new \<longrightarrow>
                \<not> (Method r = ''POST'' \<and> URL r = pipedriveURL p ''/persons'')) \<and>
           (HasPipedriveConfig (config p) \<and>
              NewRequest e ''POST'' (pipedriveURL p ''/activities'') = None \<longrightarrow>
              (\<exists>r. HttpDo r \<in> set new \<and> Method r = ''POST'' \<and>
                   URL r = pipedriveURL p ''/activities''))"
proof -
  obtain new upd dur t nt nd where new:
    "snd (ProcessRetellCallAnalyzed e p payload h) = h @ new"
    "set new \<subseteq>
       {HttpDo (pipedriveRequest p ''PUT'' (''/persons/'' @ FormatInt (PersonID m)) (Some upd)),
        HttpDo (pipedriveRequest p ''POST'' ''/activities''
                  (Some (analyzedActivityData e payload (PersonID m) dur t nt))),
        HttpDo (pipedriveRequest p ''POST'' ''/notes''
                  (Some (JObj [(''content'', nd), (''person_id'', JInt (PersonID m))])))}"
    "HasPipedriveConfig (config p) \<and>
       NewRequest e ''POST'' (pipedriveURL p ''/activities'') = None \<longrightarrow>
       HttpDo (pipedriveRequest p ''POST'' ''/activities''
                 (Some (analyzedActivityData e payload (PersonID m) dur t nt))) \<in> set new"
    using analyzed_known_call_requests [OF assms, of e h]
    by (elim exE conjE) (rule that; assumption)
  have a: "\<exists>members. Body r = Some (JObj members) \<and>
             map_of members ''person_id'' = Some (JInt (PersonID m)) \<and>
             map_of members ''done'' = Some (JInt 1)"
    if "HttpDo r \<in> set new" "Method r = ''POST''" "URL r = pipedriveURL p ''/activities''"
    for r
  proof -
    have "r = pipedriveRequest p ''POST'' ''/activities''
                (Some (analyzedActivityData e payload (PersonID m) dur t nt))"
      using that new(2) pipedriveURL_activities_not_persons(3) [of p]
      by (auto simp: pipedriveRequest_def)
    then show ?thesis
      by (simp add: pipedriveRequest_def analyzedActivityData_def)
  qed
  have b: "\<not> (Method r = ''POST'' \<and> URL r = pipedriveURL p ''/persons'')"
    if "HttpDo r \<in> set new" for r
    using that new(2) pipedriveURL_activities_not_persons(1,2) [of p]
    by (auto simp: pipedriveRequest_def)
  have c: "\<exists>r. HttpDo r \<in> set new \<and> Method r = ''POST'' \<and>
             URL r = pipedriveURL p ''/activities''"
    if "HasPipedriveConfig (config p) \<and>
        NewRequest e ''POST'' (pipedriveURL p ''/activities'') = None"
  proof -
    have "HttpDo (pipedriveRequest p ''POST'' ''/activities''
                 (Some (analyzedActivityData e payload (PersonID m) dur t nt))) \<in> set new"
      using that new(3) by simp
    then show ?thesis
      by (intro exI conjI) (assumption, simp_all add: pipedriveRequest_def)
  qed
  show ?thesis
    using new(1) a b c by (intro exI [of _ new] conjI allI impI) auto
qed

theorem analyzed_known_call_uses_stored_person_witness:
  "\<exists>new. snd (ProcessRetellCallAnalyzed (example_env answer_all None ''lead-1'')
                 (example_service\<lparr>callMappings := [''call_1'' \<mapsto> example_mapping]\<rparr>)
                 (example_analyzed ''call_1'') []) = new \<and>
         (\<forall>r. HttpDo r \<in> set new \<and> Method r = ''POST'' \<and>
              URL r = ''https://api.pipedrive.com/v1/activities?api_token=pd-key'' \<longrightarrow>
              (\<exists>members. Body r = Some (JObj members) \<and>
                 map_of members ''person_id'' = Some (JInt 139) \<and>
                 map_of members ''done'' = Some (JInt 1))) \<and>
         (\<exists>r. HttpDo r \<in> set new \<and> Method r = ''POST'' \<and>
              URL r = ''https://api.pipedrive.com/v1/activities?api_token=pd-key'')"
proof -
  let ?p = "example_service\<lparr>callMappings := [''call_1'' \<mapsto> example_mapping]\<rparr>"
  let ?e = "example_env answer_all None ''lead-1''"
  have s: "callMappings ?p (CallID (Call (example_analyzed ''call_1''))) = Some example_mapping"
    by (simp add: example_analyzed_def)
  have u: "pipedriveURL ?p ''/activities'' =
             ''https://api.pipedrive.com/v1/activities?api_token=pd-key''"
    by (simp add: pipedriveURL_def example_service_def NewPipedriveService_def
          example_config_def HasPrefix_def)
  have c: "HasPipedriveConfig (config ?p) \<and>
           NewRequest ?e ''POST'' (pipedriveURL ?p ''/activities'') = None"
    by (simp add: HasPipedriveConfig_def example_service_def NewPipedriveService_def
          example_config_def example_env_def)
  have i: "PersonID example_mapping = 139"
    by (simp add: example_mapping_def)
  show ?thesis
    using analyzed_known_call_uses_stored_person [OF s, of ?e "[]"] c
    unfolding u i by auto
qed

section \<open>Call analyzed, call identifier not in the store\<close>

text \<open>
  The requests of \<open>FindOrCreateContactByPhone\<close> when the CRM is configured: the search
  for the given term first, and the creation of an \<open>Unknown Caller\<close> with the term as
  phone value next when the search is answered without a match.
\<close>

lemma FindOrCreateContactByPhone_requests:
  assumes "HasPipedriveConfig (config p)"
    and "NewRequest e ''GET''
           (pipedriveURL p (''/persons/search?term='' @ phone @ ''&fields=phone'')) = None"
  shows "\<exists>rest. snd (FindOrCreateContactByPhone e p phone h) =
           h @ HttpDo (pipedriveRequest p ''GET''
                         (''/persons/search?term='' @ phone @ ''&fields=phone'') None) # rest \<and>
           (\<forall>resp found.
              Do e h (pipedriveRequest p ''GET''
                        (''/persons/search?term='' @ phone @ ''&fields=phone'') None) = Inr resp \<and>
              DecodeSearch e (BodyBytes resp) = Inr found \<and>
              \<not> (Search_Success found \<and> Search_Items found \<noteq> []) \<and>
              NewRequest e ''POST'' (pipedriveURL p ''/persons'') = None \<longrightarrow>
              rest = [HttpDo (pipedriveRequest p ''POST'' ''/persons''
                        (Some (JObj [(''name'', JStr ''Unknown Caller''),
                                     (''phone'', JArr [JObj [(''value'', JStr phone)]])])))])"
  using assms
  by (auto simp: FindOrCreateContactByPhone_def makePipedriveRequest_def Let_def
           split: sum.splits option.splits list.splits if_splits)

lemma analyzed_unknown_call_prefix:
  assumes "callMappings p (CallID (Call payload)) = None"
    and "HasPipedriveConfig (config p)"
  shows "\<exists>more. snd (ProcessRetellCallAnalyzed e p payload h) =
           snd (FindOrCreateContactByPhone e p ''Unknown'' h) @ more"
proof -
  obtain c h1 where F: "FindOrCreateContactByPhone e p ''Unknown'' h = (c, h1)"
    by fastforce
  show ?thesis
    using assms F
    by (auto simp: ProcessRetellCallAnalyzed_def getCallMapping_def Let_def
          UpdatePersonWithCallData_def makePipedriveRequest_history
          split: sum.splits prod.splits dest!: arg_cong [where f = snd])
qed

text \<open>
  C10. For a call-analyzed event whose call identifier is not in the store, with the
  CRM configured: the first request is the search of persons by phone with the term
  \<open>Unknown\<close>, whatever the payload holds; when that search is answered without a match,
  the next request creates a person named \<open>Unknown Caller\<close> whose phone value is
  \<open>Unknown\<close>.
\<close>

theorem analyzed_unknown_call_searches_unknown:
  assumes "callMappings p (CallID (Call payload)) = None"
    and "HasPipedriveConfig (config p)"
    and "NewRequest e ''GET''
           (pipedriveURL p ''/persons/search?term=Unknown&fields=phone'') = None"
  shows "\<exists>rest. snd (ProcessRetellCallAnalyzed e p payload h) =
           h @ HttpDo (pipedriveRequest p ''GET''
                         ''/persons/search?term=Unknown&fields=phone'' None) # rest \<and>
           (\<forall>resp found.
              Do e h (pipedriveRequest p ''GET''
                        ''/persons/search?term=Unknown&fields=phone'' None) = Inr resp \<and>
              DecodeSearch e (BodyBytes resp) = Inr found \<and>
              \<not> (Search_Success found \<and> Search_Items found \<noteq> []) \<and>
              NewRequest e ''POST'' (pipedriveURL p ''/persons'') = None \<longrightarrow>
              (\<exists>rest'. rest =
                 HttpDo (pipedriveRequest p ''POST'' ''/persons''
                           (Some (JObj [(''name'', JStr ''Unknown Caller''),
                                        (''phone'', JArr [JObj [(''value'', JStr ''Unknown'')]])])))
                 # rest'))"
proof -
  obtain more where more: "snd (ProcessRetellCallAnalyzed e p payload h) =
      snd (FindOrCreateContactByPhone e p ''Unknown'' h) @ more"
    using analyzed_unknown_call_prefix [OF assms(1,2)] by blast
  have n: "NewRequest e ''GET''
             (pipedriveURL p (''/persons/search?term='' @ ''Unknown'' @ ''&fields=phone'')) = None"
    using assms(3) by simp
  show ?thesis
    using FindOrCreateContactByPhone_requests [OF assms(2) n, of h] more
    by auto
qed

theorem analyzed_unknown_call_searches_unknown_witness:
  "\<exists>rest. snd (ProcessRetellCallAnalyzed
                  (example_env answer_all (Some (example_person [])) ''lead-1'')
                  example_service (example_analyzed ''call_9'') []) =
           HttpDo (pipedriveRequest example_service ''GET''
                     ''/persons/search?term=Unknown&fields=phone'' None)
           # HttpDo (pipedriveRequest example_service ''POST'' ''/persons''
                       (Some (JObj [(''name'', JStr ''Unknown Caller''),
                                    (''phone'', JArr [JObj [(''value'', JStr ''Unknown'')]])])))
           # rest"
proof -
  let ?e = "example_env answer_all (Some (example_person [])) ''lead-1''"
  let ?search = "pipedriveRequest example_service ''GET''
                   ''/persons/search?term=Unknown&fields=phone'' None"
  let ?found = "\<lparr>Search_Success = True, Search_Data = None, Search_Items = []\<rparr>"
  have s: "callMappings example_service (CallID (Call (example_analyzed ''call_9''))) = None"
    by (simp add: example_service_def NewPipedriveService_def)
  have c: "HasPipedriveConfig (config example_service)"
    by (simp add: HasPipedriveConfig_def example_service_def NewPipedriveService_def
          example_config_def)
  have n: "NewRequest ?e ''GET''
             (pipedriveURL example_service ''/persons/search?term=Unknown&fields=phone'') = None"
    by (simp add: example_env_def)
  have a: "Do ?e [] ?search = Inr example_response \<and>
           DecodeSearch ?e (BodyBytes example_response) = Inr ?found \<and>
           \<not> (Search_Success ?found \<and> Search_Items ?found \<noteq> []) \<and>
           NewRequest ?e ''POST'' (pipedriveURL example_service ''/persons'') = None"
    by (simp add: example_env_def answer_all_def)
  show ?thesis
    using analyzed_unknown_call_searches_unknown [OF s c n, of "[]"] a
    by (metis append_Nil)
qed

text \<open>
  C3, as stated: every call-analyzed event whose call identifier is not in the store
  ends in an activity for a generic contact and is never reported as an error. With
  the CRM unreachable the search for the contact fails and the processor returns that
  error; with the CRM not configured the processor returns nil and requests nothing.
\<close>

theorem analyzed_unknown_call_can_fail:
  "callMappings example_service (CallID (Call (example_analyzed ''call_9''))) = None \<and>
   ProcessRetellCallAnalyzed (example_env answer_none None ''lead-1'') example_service
       (example_analyzed ''call_9'') [] =
     (Returned (Some (''failed to find/create contact: failed to search contact: ''
                        @ ''failed to make request: connection refused'')),
      [HttpDo (pipedriveRequest example_service ''GET''
                 ''/persons/search?term=Unknown&fields=phone'' None)]) \<and>
   ProcessRetellCallAnalyzed (example_env answer_all None ''lead-1'')
       (NewPipedriveService (example_config\<lparr>PipedriveAPIKey := ''''\<rparr>))
       (example_analyzed ''call_9'') [] = (Returned None, [])"
  by (simp add: ProcessRetellCallAnalyzed_def getCallMapping_def
        FindOrCreateContactByPhone_def makePipedriveRequest_def
        HasPipedriveConfig_def example_service_def NewPipedriveService_def example_config_def
        example_env_def answer_none_def)

lemma example_FindOrCreateContactByPhone:
  "FindOrCreateContactByPhone (example_env answer_all (Some (example_person [])) lead_id)
       example_service ''Unknown'' [] =
     (Inr \<lparr>Contact_ID = FormatInt 139, Contact_Name = ''Jane'', Contact_Email = '''',
           Contact_Phone = '''', DNC = False\<rparr>,
      [HttpDo (pipedriveRequest example_service ''GET''
                 ''/persons/search?term=Unknown&fields=phone'' None),
       HttpDo (pipedriveRequest example_service ''POST'' ''/persons''
                 (Some (JObj [(''name'', JStr ''Unknown Caller''),
                              (''phone'', JArr [JObj [(''value'', JStr ''Unknown'')]])])))])"
  by (simp add: FindOrCreateContactByPhone_def makePipedriveRequest_def example_env_def
        answer_all_def HasPipedriveConfig_def example_service_def NewPipedriveService_def
        example_config_def example_person_def)

text \<open>
  When \<open>FindOrCreateContactByPhone\<close> returns an error, with the CRM configured: the
  search request cannot be built or is not answered, or its answer cannot be decoded,
  or, with no match, the creation request cannot be built or is not answered, or its
  answer cannot be decoded or reports no success or no person.
\<close>

lemma FindOrCreateContactByPhone_fails:
  assumes "HasPipedriveConfig (config p)"
    and "NewRequest e ''GET''
           (pipedriveURL p (''/persons/search?term='' @ phone @ ''&fields=phone'')) \<noteq> None
         \<or> (\<exists>err. Do e h (pipedriveRequest p ''GET''
                         (''/persons/search?term='' @ phone @ ''&fields=phone'') None) = Inl err)
         \<or> (Do e h (pipedriveRequest p ''GET''
                       (''/persons/search?term='' @ phone @ ''&fields=phone'') None) = Inr resp
              \<and> (\<exists>err. DecodeSearch e (BodyBytes resp) = Inl err))
         \<or> (Do e h (pipedriveRequest p ''GET''
                       (''/persons/search?term='' @ phone @ ''&fields=phone'') None) = Inr resp
              \<and> DecodeSearch e (BodyBytes resp) = Inr found
              \<and> (Search_Success found \<longrightarrow> Search_Items found = [])
              \<and> (NewRequest e ''POST'' (pipedriveURL p ''/persons'') \<noteq> None
                   \<or> (\<exists>err. Do e (h @ [HttpDo (pipedriveRequest p ''GET''
                                     (''/persons/search?term='' @ phone @ ''&fields=phone'')
                                     None)])
                              (pipedriveRequest p ''POST'' ''/persons''
                                 (Some (JObj [(''name'', JStr ''Unknown Caller''),
                                              (''phone'', JArr [JObj [(''value'', JStr phone)]])])))
                            = Inl err)
                   \<or> (Do e (h @ [HttpDo (pipedriveRequest p ''GET''
                                     (''/persons/search?term='' @ phone @ ''&fields=phone'')
                                     None)])
                          (pipedriveRequest p ''POST'' ''/persons''
                             (Some (JObj [(''name'', JStr ''Unknown Caller''),
                                          (''phone'', JArr [JObj [(''value'', JStr phone)]])])))
                        = Inr resp2
                       \<and> ((\<exists>err. DecodePerson e (BodyBytes resp2) = Inl err)
                            \<or> (DecodePerson e (BodyBytes resp2) = Inr created
                                \<and> (Person_Success created \<longrightarrow> Person_Data created = None))))))"
  shows "\<exists>err h1. FindOrCreateContactByPhone e p phone h = (Inl err, h1)"
proof -
  let ?endpoint = "''/persons/search?term='' @ phone @ ''&fields=phone''"
  let ?search = "pipedriveRequest p ''GET'' ?endpoint None"
  let ?createData = "JObj [(''name'', JStr ''Unknown Caller''),
                           (''phone'', JArr [JObj [(''value'', JStr phone)]])]"
  let ?create = "pipedriveRequest p ''POST'' ''/persons'' (Some ?createData)"
  let ?h1 = "h @ [HttpDo ?search]"
  note defs = FindOrCreateContactByPhone_def makePipedriveRequest_def Let_def
  show ?thesis
  proof (cases "NewRequest e ''GET'' (pipedriveURL p ?endpoint)")
    case (Some err)
    then show ?thesis
      using assms(1) by (simp add: defs)
  next
    case n1: None
    show ?thesis
    proof (cases "Do e h ?search")
      case (Inl err)
      then show ?thesis
        using assms(1) n1 by (simp add: defs)
    next
      case d1: (Inr r)
      show ?thesis
      proof (cases "DecodeSearch e (BodyBytes r)")
        case (Inl err)
        then show ?thesis
          using assms(1) n1 d1 by (simp add: defs)
      next
        case s1: (Inr f)
        have nomatch: "Search_Success f \<longrightarrow> Search_Items f = []"
          and create: "NewRequest e ''POST'' (pipedriveURL p ''/persons'') \<noteq> None
                 \<or> (\<exists>err. Do e ?h1 ?create = Inl err)
                 \<or> (Do e ?h1 ?create = Inr resp2
                     \<and> ((\<exists>err. DecodePerson e (BodyBytes resp2) = Inl err)
                          \<or> (DecodePerson e (BodyBytes resp2) = Inr created
                              \<and> (Person_Success created \<longrightarrow> Person_Data created = None))))"
          using assms(2) n1 d1 s1 by auto
        have items: "(if Search_Success f then Search_Items f else []) = []"
          using nomatch by simp
        show ?thesis
        proof (cases "NewRequest e ''POST'' (pipedriveURL p ''/persons'')")
          case (Some err)
          then show ?thesis
            using assms(1) n1 d1 s1 items by (simp add: defs)
        next
          case n2: None
          show ?thesis
          proof (cases "Do e ?h1 ?create")
            case (Inl err)
            then show ?thesis
              using assms(1) n1 d1 s1 items n2 by (simp add: defs)
          next
            case d2: (Inr r2)
            show ?thesis
            proof (cases "DecodePerson e (BodyBytes r2)")
              case (Inl err)
              then show ?thesis
                using assms(1) n1 d1 s1 items n2 d2 by (simp add: defs)
            next
              case s2: (Inr cr)
              have "Person_Success cr \<longrightarrow> Person_Data cr = None"
                using create n2 d2 s2 by auto
              then have "(if Person_Success cr then Person_Data cr else None) = None"
                by simp
              then show ?thesis
                using assms(1) n1 d1 s1 items n2 d2 s2 by (simp add: defs)
            qed
          qed
        qed
      qed
    qed
  qed
qed

lemma analyzed_unknown_call_lookup_error:
  assumes "callMappings p (CallID (Call payload)) = None"
    and "HasPipedriveConfig (config p)"
    and "FindOrCreateContactByPhone e p ''Unknown'' h = (Inl err, h1)"
  shows "ProcessRetellCallAnalyzed e p payload h =
           (Returned (Some (''failed to find/create contact: '' @ err)), h1)"
  using assms
  by (simp add: ProcessRetellCallAnalyzed_def getCallMapping_def Let_def)

lemma analyzed_unknown_call_activity:
  assumes "callMappings p (CallID (Call payload)) = None"
    and "HasPipedriveConfig (config p)"
    and "FindOrCreateContactByPhone e p ''Unknown'' h = (Inr contact, h1)"
    and "Contact_ID contact = FormatInt personID"
    and "- (2 ^ 63) \<le> personID" and "personID < 2 ^ 63"
  shows "\<exists>h2 dur t en members.
           (\<exists>upd. h2 = h1 @ upd) \<and>
           JObj members = analyzedActivityData e payload personID dur t
                            (buildCallAnalyzedNote e payload t en dur) \<and>
           map_of members ''person_id'' = Some (JInt personID) \<and>
           map_of members ''done'' = Some (JInt 1) \<and>
           (\<forall>err. NewRequest e ''POST'' (pipedriveURL p ''/activities'') = Some err \<longrightarrow>
              ProcessRetellCallAnalyzed e p payload h =
                (Returned (Some (''failed to create call activity: ''
                                   @ ''failed to create request: '' @ err)), h2)) \<and>
           (\<forall>err. NewRequest e ''POST'' (pipedriveURL p ''/activities'') = None \<and>
                  Do e h2 (pipedriveRequest p ''POST'' ''/activities'' (Some (JObj members)))
                    = Inl err \<longrightarrow>
              ProcessRetellCallAnalyzed e p payload h =
                (Returned (Some (''failed to create call activity: ''
                                   @ ''failed to make request: '' @ err)),
                 h2 @ [HttpDo (pipedriveRequest p ''POST'' ''/activities''
                                 (Some (JObj members)))])) \<and>
           (\<forall>resp. NewRequest e ''POST'' (pipedriveURL p ''/activities'') = None \<and>
                   Do e h2 (pipedriveRequest p ''POST'' ''/activities'' (Some (JObj members)))
                     = Inr resp \<longrightarrow>
              ProcessRetellCallAnalyzed e p payload h =
                (Returned None,
                 h2 @ [HttpDo (pipedriveRequest p ''POST'' ''/activities''
                                 (Some (JObj members)))]))"
proof -
  let ?st = "quo (StartTimestamp (Call payload)) 1000"
  let ?en = "quo (EndTimestamp (Call payload)) 1000"
  let ?ds = "quo (DurationMs (Call payload)) 1000"
  let ?dur = "Format02d (quo ?ds 3600) @ '':'' @ Format02d (quo (rem ?ds 3600) 60)
                @ '':'' @ Format02d (rem ?ds 60)"
  let ?act = "analyzedActivityData e payload personID ?dur ?st
                (buildCallAnalyzedNote e payload ?st ?en ?dur)"
  let ?req = "pipedriveRequest p ''POST'' ''/activities'' (Some ?act)"
  obtain u h2 where U: "UpdatePersonWithCallData e p personID (Transcript (Call payload))
                          ?dur (FormatTime e ?st ''2006-01-02'') h1 = (u, h2)"
    by fastforce
  have A: "Atoi (Quote e) (Contact_ID contact) = Inr personID"
    using assms(4-6) by (simp add: Atoi_FormatInt)
  have R: "ProcessRetellCallAnalyzed e p payload h =
             (case makePipedriveRequest e p ''POST'' ''/activities'' (Some ?act) h2 of
                (Inl err, h3) \<Rightarrow>
                  (Returned (Some (''failed to create call activity: '' @ err)), h3)
              | (Inr _, h3) \<Rightarrow> (Returned None, h3))"
    using assms(1-3) A U
    by (simp add: ProcessRetellCallAnalyzed_def getCallMapping_def Let_def)
  have R1: "ProcessRetellCallAnalyzed e p payload h =
              (Returned (Some (''failed to create call activity: ''
                                 @ ''failed to create request: '' @ err)), h2)"
    if "NewRequest e ''POST'' (pipedriveURL p ''/activities'') = Some err" for err
    using that by (simp add: R makePipedriveRequest_def)
  have R2: "ProcessRetellCallAnalyzed e p payload h =
              (Returned (Some (''failed to create call activity: ''
                                 @ ''failed to make request: '' @ err)), h2 @ [HttpDo ?req])"
    if "NewRequest e ''POST'' (pipedriveURL p ''/activities'') = None \<and>
        Do e h2 ?req = Inl err" for err
    using that by (simp add: R makePipedriveRequest_def)
  have R3: "ProcessRetellCallAnalyzed e p payload h = (Returned None, h2 @ [HttpDo ?req])"
    if "NewRequest e ''POST'' (pipedriveURL p ''/activities'') = None \<and>
        Do e h2 ?req = Inr resp" for resp
    using that by (simp add: R makePipedriveRequest_def)
  have P: "\<exists>upd. h2 = h1 @ upd"
    using arg_cong [OF U, of snd]
    by (auto simp: UpdatePersonWithCallData_history makePipedriveRequest_history
          split: if_splits)
  obtain members where B: "?act = JObj members"
      "map_of members ''person_id'' = Some (JInt personID)"
      "map_of members ''done'' = Some (JInt 1)"
    by (simp add: analyzedActivityData_def)
  show ?thesis
    using P B R1 R2 R3
    apply -
    apply (rule exI [of _ h2])
    apply (rule exI [of _ ?dur])
    apply (rule exI [of _ ?st])
    apply (rule exI [of _ ?en])
    apply (rule exI [of _ members])
    apply simp
    done
qed

text \<open>
  C3, amended. For a call-analyzed event whose call identifier is not in the store,
  with the CRM configured, the processor takes the generic lookup
  \<open>FindOrCreateContactByPhone\<close> with the term \<open>Unknown\<close>, and the miss itself is no
  error. Whatever error the lookup returns is returned as an error. The lookup returns
  an error when the search request cannot be built or is not answered, when its answer
  cannot be decoded, and, with no match, when the creation request cannot be built or
  is not answered or its answer cannot be decoded or reports no success or no person.
  When the lookup returns a contact, whose identifier is the decimal text of the CRM's
  person id, the processor builds an activity for that person, marked done, with the
  note that has no person details: it returns nil when the activity request is
  answered, and an error when the request cannot be built or is not answered.
\<close>

theorem analyzed_unknown_call_fallback:
  assumes "callMappings p (CallID (Call payload)) = None"
    and "HasPipedriveConfig (config p)"
  shows
    "(\<forall>err h1. FindOrCreateContactByPhone e p ''Unknown'' h = (Inl err, h1) \<longrightarrow>
        ProcessRetellCallAnalyzed e p payload h =
          (Returned (Some (''failed to find/create contact: '' @ err)), h1)) \<and>
     (\<forall>resp found resp2 created.
        NewRequest e ''GET''
          (pipedriveURL p ''/persons/search?term=Unknown&fields=phone'') \<noteq> None
        \<or> (\<exists>err. Do e h (pipedriveRequest p ''GET''
                        ''/persons/search?term=Unknown&fields=phone'' None) = Inl err)
        \<or> (Do e h (pipedriveRequest p ''GET''
                      ''/persons/search?term=Unknown&fields=phone'' None) = Inr resp
             \<and> (\<exists>err. DecodeSearch e (BodyBytes resp) = Inl err))
        \<or> (Do e h (pipedriveRequest p ''GET''
                      ''/persons/search?term=Unknown&fields=phone'' None) = Inr resp
             \<and> DecodeSearch e (BodyBytes resp) = Inr found
             \<and> (Search_Success found \<longrightarrow> Search_Items found = [])
             \<and> (NewRequest e ''POST'' (pipedriveURL p ''/persons'') \<noteq> None
                  \<or> (\<exists>err. Do e (h @ [HttpDo (pipedriveRequest p ''GET''
                                    ''/persons/search?term=Unknown&fields=phone'' None)])
                             (pipedriveRequest p ''POST'' ''/persons''
                                (Some (JObj [(''name'', JStr ''Unknown Caller''),
                                             (''phone'',
                                                JArr [JObj [(''value'', JStr ''Unknown'')]])])))
                           = Inl err)
                  \<or> (Do e (h @ [HttpDo (pipedriveRequest p ''GET''
                                    ''/persons/search?term=Unknown&fields=phone'' None)])
                         (pipedriveRequest p ''POST'' ''/persons''
                            (Some (JObj [(''name'', JStr ''Unknown Caller''),
                                         (''phone'',
                                            JArr [JObj [(''value'', JStr ''Unknown'')]])])))
                       = Inr resp2
                      \<and> ((\<exists>err. DecodePerson e (BodyBytes resp2) = Inl err)
                           \<or> (DecodePerson e (BodyBytes resp2) = Inr created
                               \<and> (Person_Success created \<longrightarrow> Person_Data created = None))))))
        \<longrightarrow> (\<exists>err h1. ProcessRetellCallAnalyzed e p payload h =
                         (Returned (Some (''failed to find/create contact: '' @ err)), h1))) \<and>
     (\<forall>contact h1 personID.
        FindOrCreateContactByPhone e p ''Unknown'' h = (Inr contact, h1) \<and>
        Contact_ID contact = FormatInt personID \<and>
        - (2 ^ 63) \<le> personID \<and> personID < 2 ^ 63 \<longrightarrow>
        (\<exists>h2 dur t en members.
           (\<exists>upd. h2 = h1 @ upd) \<and>
           JObj members = analyzedActivityData e payload personID dur t
                            (buildCallAnalyzedNote e payload t en dur) \<and>
           map_of members ''person_id'' = Some (JInt personID) \<and>
           map_of members ''done'' = Some (JInt 1) \<and>
           (\<forall>err. NewRequest e ''POST'' (pipedriveURL p ''/activities'') = Some err \<longrightarrow>
              ProcessRetellCallAnalyzed e p payload h =
                (Returned (Some (''failed to create call activity: ''
                                   @ ''failed to create request: '' @ err)), h2)) \<and>
           (\<forall>err. NewRequest e ''POST'' (pipedriveURL p ''/activities'') = None \<and>
                  Do e h2 (pipedriveRequest p ''POST'' ''/activities'' (Some (JObj members)))
                    = Inl err \<longrightarrow>
              ProcessRetellCallAnalyzed e p payload h =
                (Returned (Some (''failed to create call activity: ''
                                   @ ''failed to make request: '' @ err)),
                 h2 @ [HttpDo (pipedriveRequest p ''POST'' ''/activities''
                                 (Some (JObj members)))])) \<and>
           (\<forall>resp. NewRequest e ''POST'' (pipedriveURL p ''/activities'') = None \<and>
                   Do e h2 (pipedriveRequest p ''POST'' ''/activities'' (Some (JObj members)))
                     = Inr resp \<longrightarrow>
              ProcessRetellCallAnalyzed e p payload h =
                (Returned None,
                 h2 @ [HttpDo (pipedriveRequest p ''POST'' ''/activities''
                                 (Some (JObj members)))]))))"
proof (intro conjI allI impI)
  fix err h1
  assume "FindOrCreateContactByPhone e p ''Unknown'' h = (Inl err, h1)"
  then show "ProcessRetellCallAnalyzed e p payload h =
               (Returned (Some (''failed to find/create contact: '' @ err)), h1)"
    by (rule analyzed_unknown_call_lookup_error [OF assms])
next
  fix resp found resp2 created
  assume c: "NewRequest e ''GET''
          (pipedriveURL p ''/persons/search?term=Unknown&fields=phone'') \<noteq> None
        \<or> (\<exists>err. Do e h (pipedriveRequest p ''GET''
                        ''/persons/search?term=Unknown&fields=phone'' None) = Inl err)
        \<or> (Do e h (pipedriveRequest p ''GET''
                      ''/persons/search?term=Unknown&fields=phone'' None) = Inr resp
             \<and> (\<exists>err. DecodeSearch e (BodyBytes resp) = Inl err))
        \<or> (Do e h (pipedriveRequest p ''GET''
                      ''/persons/search?term=Unknown&fields=phone'' None) = Inr resp
             \<and> DecodeSearch e (BodyBytes resp) = Inr found
             \<and> (Search_Success found \<longrightarrow> Search_Items found = [])
             \<and> (NewRequest e ''POST'' (pipedriveURL p ''/persons'') \<noteq> None
                  \<or> (\<exists>err. Do e (h @ [HttpDo (pipedriveRequest p ''GET''
                                    ''/persons/search?term=Unknown&fields=phone'' None)])
                             (pipedriveRequest p ''POST'' ''/persons''
                                (Some (JObj [(''name'', JStr ''Unknown Caller''),
                                             (''phone'',
                                                JArr [JObj [(''value'', JStr ''Unknown'')]])])))
                           = Inl err)
                  \<or> (Do e (h @ [HttpDo (pipedriveRequest p ''GET''
                                    ''/persons/search?term=Unknown&fields=phone'' None)])
                         (pipedriveRequest p ''POST'' ''/persons''
                            (Some (JObj [(''name'', JStr ''Unknown Caller''),
                                         (''phone'',
                                            JArr [JObj [(''value'', JStr ''Unknown'')]])])))
                       = Inr resp2
                      \<and> ((\<exists>err. DecodePerson e (BodyBytes resp2) = Inl err)
                           \<or> (DecodePerson e (BodyBytes resp2) = Inr created
                               \<and> (Person_Success created \<longrightarrow> Person_Data created = None))))))"
  have "\<exists>err h1. FindOrCreateContactByPhone e p ''Unknown'' h = (Inl err, h1)"
    by (rule FindOrCreateContactByPhone_fails
               [OF assms(2), of e "''Unknown''" h resp found resp2 created])
       (use c in simp)
  then show "\<exists>err h1. ProcessRetellCallAnalyzed e p payload h =
                        (Returned (Some (''failed to find/create contact: '' @ err)), h1)"
    using analyzed_unknown_call_lookup_error [OF assms] by blast
next
  fix contact h1 personID
  assume "FindOrCreateContactByPhone e p ''Unknown'' h = (Inr contact, h1) \<and>
          Contact_ID contact = FormatInt personID \<and>
          - (2 ^ 63) \<le> personID \<and> personID < 2 ^ 63"
  then show "\<exists>h2 dur t en members.
           (\<exists>upd. h2 = h1 @ upd) \<and>
           JObj members = analyzedActivityData e payload personID dur t
                            (buildCallAnalyzedNote e payload t en dur) \<and>
           map_of members ''person_id'' = Some (JInt personID) \<and>
           map_of members ''done'' = Some (JInt 1) \<and>
           (\<forall>err. NewRequest e ''POST'' (pipedriveURL p ''/activities'') = Some err \<longrightarrow>
              ProcessRetellCallAnalyzed e p payload h =
                (Returned (Some (''failed to create call activity: ''
                                   @ ''failed to create request: '' @ err)), h2)) \<and>
           (\<forall>err. NewRequest e ''POST'' (pipedriveURL p ''/activities'') = None \<and>
                  Do e h2 (pipedriveRequest p ''POST'' ''/activities'' (Some (JObj members)))
                    = Inl err \<longrightarrow>
              ProcessRetellCallAnalyzed e p payload h =
                (Returned (Some (''failed to create call activity: ''
                                   @ ''failed to make request: '' @ err)),
                 h2 @ [HttpDo (pipedriveRequest p ''POST'' ''/activities''
                                 (Some (JObj members)))])) \<and>
           (\<forall>resp. NewRequest e ''POST'' (pipedriveURL p ''/activities'') = None \<and>
                   Do e h2 (pipedriveRequest p ''POST'' ''/activities'' (Some (JObj members)))
                     = Inr resp \<longrightarrow>
              ProcessRetellCallAnalyzed e p payload h =
                (Returned None,
                 h2 @ [HttpDo (pipedriveRequest p ''POST'' ''/activities''
                                 (Some (JObj members)))]))"
    using analyzed_unknown_call_activity [OF assms, of e h contact h1 personID] by blast
qed

theorem analyzed_unknown_call_fallback_witness:
  "(\<exists>h2 members.
      ProcessRetellCallAnalyzed (example_env answer_all (Some (example_person [])) ''lead-1'')
          example_service (example_analyzed ''call_9'') [] =
        (Returned None,
         h2 @ [HttpDo (pipedriveRequest example_service ''POST'' ''/activities''
                         (Some (JObj members)))]) \<and>
      map_of members ''person_id'' = Some (JInt 139) \<and>
      map_of members ''done'' = Some (JInt 1)) \<and>
   (\<exists>err h1.
      ProcessRetellCallAnalyzed (example_env answer_none None ''lead-1'')
          example_service (example_analyzed ''call_9'') [] =
        (Returned (Some (''failed to find/create contact: '' @ err)), h1)) \<and>
   (\<exists>h3.
      ProcessRetellCallAnalyzed
          ((example_env answer_get None ''lead-1'')
             \<lparr>DecodeSearch := (\<lambda>b. Inr \<lparr>Search_Success = True, Search_Data = None,
                                        Search_Items = [example_person []]\<rparr>)\<rparr>)
          example_service (example_analyzed ''call_9'') [] =
        (Returned (Some (''failed to create call activity: ''
                           @ ''failed to make request: '' @ ''timeout'')), h3))"
proof (intro conjI)
  let ?pl = "example_analyzed ''call_9''"
  have s: "callMappings example_service (CallID (Call ?pl)) = None"
    by (simp add: example_service_def NewPipedriveService_def)
  have c: "HasPipedriveConfig (config example_service)"
    by (simp add: HasPipedriveConfig_def example_service_def NewPipedriveService_def
          example_config_def)
  have r: "- (2 ^ 63) \<le> (139::int) \<and> (139::int) < 2 ^ 63"
    by simp
  let ?contact = "\<lparr>Contact_ID = FormatInt 139, Contact_Name = ''Jane'', Contact_Email = '''',
                    Contact_Phone = '''', DNC = False\<rparr>"
  have i: "Contact_ID ?contact = FormatInt 139"
    by simp
  {
    let ?e = "example_env answer_all (Some (example_person [])) ''lead-1''"
    let ?h1 = "[HttpDo (pipedriveRequest example_service ''GET''
                          ''/persons/search?term=Unknown&fields=phone'' None),
                HttpDo (pipedriveRequest example_service ''POST'' ''/persons''
                          (Some (JObj [(''name'', JStr ''Unknown Caller''),
                                       (''phone'',
                                          JArr [JObj [(''value'', JStr ''Unknown'')]])])))]"
    have f: "FindOrCreateContactByPhone ?e example_service ''Unknown'' [] = (Inr ?contact, ?h1) \<and>
             Contact_ID ?contact = FormatInt 139 \<and>
             - (2 ^ 63) \<le> (139::int) \<and> (139::int) < 2 ^ 63"
      using example_FindOrCreateContactByPhone i r by blast
    obtain h2 members where m:
      "map_of members ''person_id'' = Some (JInt 139)"
      "map_of members ''done'' = Some (JInt 1)"
      "\<forall>resp. NewRequest ?e ''POST'' (pipedriveURL example_service ''/activities'') = None \<and>
              Do ?e h2 (pipedriveRequest example_service ''POST'' ''/activities''
                          (Some (JObj members))) = Inr resp \<longrightarrow>
              ProcessRetellCallAnalyzed ?e example_service ?pl [] =
                (Returned None,
                 h2 @ [HttpDo (pipedriveRequest example_service ''POST'' ''/activities''
                                 (Some (JObj members)))])"
      using analyzed_unknown_call_fallback
              [OF s c, of ?e "[]", THEN conjunct2, THEN conjunct2, rule_format, OF f]
      by (elim exE conjE) (rule that; assumption)
    have "NewRequest ?e ''POST'' (pipedriveURL example_service ''/activities'') = None \<and>
          Do ?e h2 (pipedriveRequest example_service ''POST'' ''/activities''
                      (Some (JObj members))) = Inr example_response"
      by (simp add: example_env_def answer_all_def)
    with m show "\<exists>h2 members.
        ProcessRetellCallAnalyzed ?e example_service ?pl [] =
          (Returned None,
           h2 @ [HttpDo (pipedriveRequest example_service ''POST'' ''/activities''
                           (Some (JObj members)))]) \<and>
        map_of members ''person_id'' = Some (JInt 139) \<and>
        map_of members ''done'' = Some (JInt 1)"
      by blast
  }
  {
    let ?e = "example_env answer_none None ''lead-1''"
    have "\<exists>err. Do ?e [] (pipedriveRequest example_service ''GET''
                             ''/persons/search?term=Unknown&fields=phone'' None) = Inl err"
      by (simp add: example_env_def answer_none_def)
    then show "\<exists>err h1. ProcessRetellCallAnalyzed ?e example_service ?pl [] =
                 (Returned (Some (''failed to find/create contact: '' @ err)), h1)"
      using analyzed_unknown_call_fallback
              [OF s c, of ?e "[]", THEN conjunct2, THEN conjunct1, rule_format]
      by blast
  }
  {
    let ?e = "(example_env answer_get None ''lead-1'')
                \<lparr>DecodeSearch := (\<lambda>b. Inr \<lparr>Search_Success = True, Search_Data = None,
                                           Search_Items = [example_person []]\<rparr>)\<rparr>"
    let ?h1 = "[HttpDo (pipedriveRequest example_service ''GET''
                          ''/persons/search?term=Unknown&fields=phone'' None)]"
    have "FindOrCreateContactByPhone ?e example_service ''Unknown'' [] = (Inr ?contact, ?h1)"
      by (simp add: FindOrCreateContactByPhone_def makePipedriveRequest_def example_env_def
            answer_get_def HasPipedriveConfig_def example_service_def NewPipedriveService_def
            example_config_def example_person_def pipedriveRequest_def)
    then have f: "FindOrCreateContactByPhone ?e example_service ''Unknown'' [] =
                    (Inr ?contact, ?h1) \<and>
                  Contact_ID ?contact = FormatInt 139 \<and>
                  - (2 ^ 63) \<le> (139::int) \<and> (139::int) < 2 ^ 63"
      using i r by blast
    obtain h2 members where m:
      "\<forall>err. NewRequest ?e ''POST'' (pipedriveURL example_service ''/activities'') = None \<and>
             Do ?e h2 (pipedriveRequest example_service ''POST'' ''/activities''
                         (Some (JObj members))) = Inl err \<longrightarrow>
             ProcessRetellCallAnalyzed ?e example_service ?pl [] =
               (Returned (Some (''failed to create call activity: ''
                                  @ ''failed to make request: '' @ err)),
                h2 @ [HttpDo (pipedriveRequest example_service ''POST'' ''/activities''
                                (Some (JObj members)))])"
      using analyzed_unknown_call_fallback
              [OF s c, of ?e "[]", THEN conjunct2, THEN conjunct2, rule_format, OF f]
      by (elim exE conjE) (rule that; assumption)
    have "NewRequest ?e ''POST'' (pipedriveURL example_service ''/activities'') = None \<and>
          Do ?e h2 (pipedriveRequest example_service ''POST'' ''/activities''
                      (Some (JObj members))) = Inl ''timeout''"
      by (simp add: example_env_def answer_get_def pipedriveRequest_def)
    with m show "\<exists>h3. ProcessRetellCallAnalyzed ?e example_service ?pl [] =
                   (Returned (Some (''failed to create call activity: ''
                                      @ ''failed to make request: '' @ ''timeout'')), h3)"
      by blast
  }
qed

end
